theory Spec2Isabelle
  imports Complex_Main
begin

section \<open>Numbers, dates and clock readings\<close>

text \<open>
  The program is \<^verbatim>\<open>fitness_app.py\<close>. Calorie amounts are Python floats. They are modelled
  exactly: a finite float is the rational number it denotes (so sums and products are
  not rounded to 53 bits and never overflow), and the three special values that
  \<^verbatim>\<open>float()\<close> can produce from user input are kept as values of their own.
  Equality of the model is structural, so \<open>NaN = NaN\<close> here.
\<close>

datatype pyfloat = Finite rat | PosInf | NegInf | NaN

fun fadd :: "pyfloat \<Rightarrow> pyfloat \<Rightarrow> pyfloat" where
  "fadd (Finite a) (Finite b) = Finite (a + b)"
| "fadd NaN _ = NaN"
| "fadd _ NaN = NaN"
| "fadd PosInf NegInf = NaN"
| "fadd NegInf PosInf = NaN"
| "fadd PosInf _ = PosInf"
| "fadd _ PosInf = PosInf"
| "fadd NegInf _ = NegInf"
| "fadd _ NegInf = NegInf"

fun fmul :: "pyfloat \<Rightarrow> pyfloat \<Rightarrow> pyfloat" where
  "fmul (Finite a) (Finite b) = Finite (a * b)"
| "fmul NaN _ = NaN"
| "fmul _ NaN = NaN"
| "fmul PosInf (Finite b) = (if b = 0 then NaN else if 0 < b then PosInf else NegInf)"
| "fmul NegInf (Finite b) = (if b = 0 then NaN else if 0 < b then NegInf else PosInf)"
| "fmul (Finite a) PosInf = (if a = 0 then NaN else if 0 < a then PosInf else NegInf)"
| "fmul (Finite a) NegInf = (if a = 0 then NaN else if 0 < a then NegInf else PosInf)"
| "fmul PosInf PosInf = PosInf"
| "fmul NegInf NegInf = PosInf"
| "fmul PosInf NegInf = NegInf"
| "fmul NegInf PosInf = NegInf"

text \<open>An \<^verbatim>\<open>int\<close> operand of a float operation is converted first.\<close>

definition of_pyint :: "int \<Rightarrow> pyfloat" where
  "of_pyint i = Finite (of_int i)"

text \<open>\<^verbatim>\<open>round(x, 1)\<close>: to one decimal, ties to the even neighbour; a special value is returned as it is.\<close>

definition round_half_even :: "rat \<Rightarrow> int" where
  "round_half_even r =
     (let f = \<lfloor>r\<rfloor>; d = r - of_int f
      in if d < 1 / 2 then f else if 1 / 2 < d then f + 1 else if even f then f else f + 1)"

fun round1 :: "pyfloat \<Rightarrow> pyfloat" where
  "round1 (Finite q) = Finite (of_int (round_half_even (q * 10)) / 10)"
| "round1 x = x"

text \<open>
  A calendar date, with the day arithmetic of the standard library's \<^verbatim>\<open>datetime\<close>:
  \<^verbatim>\<open>(a - b).days\<close> is the difference of the proleptic Gregorian ordinals and
  \<^verbatim>\<open>weekday()\<close> is \<^verbatim>\<open>(toordinal() + 6) % 7\<close>, Monday being 0. A date string
  \<^verbatim>\<open>"%Y-%m-%d"\<close> written by \<^verbatim>\<open>strftime\<close> and read back by \<^verbatim>\<open>strptime\<close> is the date itself.
  The program only ever holds dates of the calendar; the month table answers 0 for a
  month number outside 1 to 12, which no such date has.
\<close>

record date =
  year :: int
  month :: int
  day :: int

definition is_leap :: "int \<Rightarrow> bool" where
  "is_leap y = (y mod 4 = 0 \<and> (y mod 100 \<noteq> 0 \<or> y mod 400 = 0))"

definition days_before_year :: "int \<Rightarrow> int" where
  "days_before_year y' = (let y = y' - 1 in y * 365 + y div 4 - y div 100 + y div 400)"

definition days_before_month :: "int \<Rightarrow> int \<Rightarrow> int" where
  "days_before_month y m =
     (if 1 \<le> m \<and> m \<le> 12 then
        [0, 31, 59, 90, 120, 151, 181, 212, 243, 273, 304, 334] ! nat (m - 1)
          + (if 2 < m \<and> is_leap y then 1 else 0)
      else 0)"

definition toordinal :: "date \<Rightarrow> int" where
  "toordinal d = days_before_year (year d) + days_before_month (year d) (month d) + day d"

definition days_between :: "date \<Rightarrow> date \<Rightarrow> int" where
  "days_between a b = toordinal a - toordinal b"

definition weekday :: "date \<Rightarrow> int" where
  "weekday d = (toordinal d + 6) mod 7"

text \<open>
  One reading of \<^verbatim>\<open>datetime.now()\<close>: the local date and the microseconds since its
  midnight. The clock is an input from the program's environment: the functions of the
  DataManager take their readings as arguments, and the application carries the sequence
  of its readings.
\<close>

record datetime =
  dt_date :: date
  dt_micros :: int

section \<open>The document held by the DataManager\<close>

record exercise =
  category :: string
  calories_per_rep :: pyfloat
  icon :: string

record exercise_step =
  name :: string
  sets :: int
  reps :: int
  rest :: int

record workout =
  workout_exercises :: "exercise_step list"
  description :: string

record entry =
  date :: date
  timestamp :: datetime
  workout_name :: string
  exercises_completed :: "exercise_step list"
  duration_minutes :: int
  calories_burned :: pyfloat

record goals =
  weekly_workouts :: int
  daily_calories :: int

record user_stats =
  total_workouts :: int
  total_calories :: pyfloat
  total_time_minutes :: int
  streak :: int
  best_streak :: int
  last_workout_date :: "date option"

record document =
  exercises :: "string \<rightharpoonup> exercise"
  workouts :: "string \<rightharpoonup> workout"
  history :: "entry list"
  goals :: goals
  user_stats :: user_stats

text \<open>
  The DataManager: the document in memory (\<^verbatim>\<open>self.data\<close>) and the content of the data
  file, \<open>None\<close> until the first \<^verbatim>\<open>save_data\<close>. Writing the file is taken to succeed.
\<close>

record data_manager =
  data :: document
  data_file :: "document option"

definition default_stats :: user_stats where
  "default_stats =
     \<lparr>total_workouts = 0, total_calories = Finite 0, total_time_minutes = 0,
      streak = 0, best_streak = 0, last_workout_date = None\<rparr>"

text \<open>
  \<^verbatim>\<open>load_data\<close> when no data file exists, with the exercise and workout tables given
  (the source seeds them with its ten exercises and four workouts, whose names are Hebrew).
\<close>

definition default_data :: "(string \<rightharpoonup> exercise) \<Rightarrow> (string \<rightharpoonup> workout) \<Rightarrow> document" where
  "default_data exs wos =
     \<lparr>exercises = exs, workouts = wos, history = [],
      goals = \<lparr>weekly_workouts = 3, daily_calories = 300\<rparr>,
      user_stats = default_stats\<rparr>"

definition save_data :: "data_manager \<Rightarrow> data_manager" where
  "save_data dm = dm\<lparr>data_file := Some (data dm)\<rparr>"

text \<open>
  \<^verbatim>\<open>add_workout_to_history\<close>. It reads the clock twice: \<open>now1\<close> gives \<^verbatim>\<open>today\<close>,
  \<open>now2\<close> the entry's timestamp. A stored \<^verbatim>\<open>last_workout_date\<close> is \<^verbatim>\<open>None\<close> or a date string,
  and only \<^verbatim>\<open>None\<close> is false in the test of line 150.
\<close>

definition add_workout_to_history ::
  "datetime \<Rightarrow> datetime \<Rightarrow> string \<Rightarrow> exercise_step list \<Rightarrow> int \<Rightarrow> pyfloat \<Rightarrow>
   data_manager \<Rightarrow> data_manager" where
  "add_workout_to_history now1 now2 wname exs dur cal dm =
     (let today = dt_date now1;
          e = \<lparr>date = today, timestamp = now2, workout_name = wname,
               exercises_completed = exs, duration_minutes = dur,
               calories_burned = round1 cal\<rparr>;
          d = data dm;
          stats = user_stats d;
          stats = stats\<lparr>total_workouts := total_workouts stats + 1\<rparr>;
          stats = stats\<lparr>total_calories := fadd (total_calories stats) cal\<rparr>;
          stats = stats\<lparr>total_time_minutes := total_time_minutes stats + dur\<rparr>;
          stats =
            (case last_workout_date stats of
               Some last_date \<Rightarrow>
                 (let diff = days_between today last_date
                  in if diff = 1 then stats\<lparr>streak := streak stats + 1\<rparr>
                     else if 1 < diff then stats\<lparr>streak := 1\<rparr>
                     else stats)
             | None \<Rightarrow> stats\<lparr>streak := 1\<rparr>);
          stats = stats\<lparr>best_streak := max (streak stats) (best_streak stats)\<rparr>;
          stats = stats\<lparr>last_workout_date := Some today\<rparr>
      in save_data (dm\<lparr>data := d\<lparr>history := history d @ [e], user_stats := stats\<rparr>\<rparr>))"

text \<open>
  The arguments and the two clock readings of one call of \<^verbatim>\<open>add_workout_to_history\<close>,
  and a sequence of calls made one after the other.
\<close>

record session_call =
  call_now :: datetime
  call_stamp :: datetime
  call_name :: string
  call_steps :: "exercise_step list"
  call_minutes :: int
  call_calories :: pyfloat

definition record_session :: "data_manager \<Rightarrow> session_call \<Rightarrow> data_manager" where
  "record_session dm c =
     add_workout_to_history (call_now c) (call_stamp c) (call_name c) (call_steps c)
       (call_minutes c) (call_calories c) dm"

definition record_sessions :: "session_call list \<Rightarrow> data_manager \<Rightarrow> data_manager" where
  "record_sessions cs dm = foldl record_session dm cs"

definition call_dates :: "session_call list \<Rightarrow> date list" where
  "call_dates cs = map (\<lambda>c. dt_date (call_now c)) cs"

text \<open>Calendar days that follow one another: each date is the day after the one before it.\<close>

definition consecutive_days :: "date list \<Rightarrow> bool" where
  "consecutive_days ds = successively (\<lambda>a b. days_between b a = 1) ds"

definition fresh_manager :: "(string \<rightharpoonup> exercise) \<Rightarrow> (string \<rightharpoonup> workout) \<Rightarrow> data_manager" where
  "fresh_manager exs wos = \<lparr>data = default_data exs wos, data_file = None\<rparr>"

text \<open>
  The specification's replay of the ledger (its section 3 and section 4.3, step 3): the
  aggregate statistics are recomputed from the stored records alone, each record
  contributing its own date, minutes and calories, starting from the zeroed statistics.
\<close>

definition spec_replay_entry :: "user_stats \<Rightarrow> entry \<Rightarrow> user_stats" where
  "spec_replay_entry st e =
     (let new_streak =
            (case last_workout_date st of
               None \<Rightarrow> 1
             | Some last_date \<Rightarrow>
                 (let gapDays = days_between (date e) last_date
                  in if gapDays = 1 then streak st + 1
                     else if 1 < gapDays then 1
                     else streak st))
      in \<lparr>total_workouts = total_workouts st + 1,
          total_calories = fadd (total_calories st) (calories_burned e),
          total_time_minutes = total_time_minutes st + duration_minutes e,
          streak = new_streak,
          best_streak = max (best_streak st) new_streak,
          last_workout_date = Some (date e)\<rparr>)"

definition spec_replay_ledger :: "entry list \<Rightarrow> user_stats" where
  "spec_replay_ledger es = foldl spec_replay_entry default_stats es"

section \<open>Weekly statistics\<close>

text \<open>
  \<^verbatim>\<open>get_weekly_stats\<close>. \<^verbatim>\<open>week_start\<close> is midnight of the Monday on or before the clock
  reading, and every \<^verbatim>\<open>entry_date\<close> is a midnight too, so the comparison of line 180
  compares day ordinals. The loop over the history carries the four accumulators; the seven
  buckets are a list indexed by the weekday.
\<close>

definition week_start :: "datetime \<Rightarrow> int" where
  "week_start today = toordinal (dt_date today) - weekday (dt_date today)"

fun weekly_loop ::
  "int \<Rightarrow> entry list \<Rightarrow> int \<times> pyfloat \<times> int \<times> int list \<Rightarrow> int \<times> pyfloat \<times> int \<times> int list" where
  "weekly_loop ws [] acc = acc"
| "weekly_loop ws (e # es) (w_workouts, w_calories, w_minutes, breakdown) =
     (let entry_date = toordinal (date e)
      in if ws \<le> entry_date then
           (let day_idx = nat (weekday (date e))
            in weekly_loop ws es
                 (w_workouts + 1,
                  fadd w_calories (calories_burned e),
                  w_minutes + duration_minutes e,
                  breakdown[day_idx := breakdown ! day_idx + 1]))
         else weekly_loop ws es (w_workouts, w_calories, w_minutes, breakdown))"

record weekly_stats =
  wk_workouts :: int
  wk_calories :: pyfloat
  wk_minutes :: int
  daily_breakdown :: "int list"
  goal_progress :: rat

definition get_weekly_stats :: "datetime \<Rightarrow> data_manager \<Rightarrow> weekly_stats" where
  "get_weekly_stats today dm =
     (case weekly_loop (week_start today) (history (data dm)) (0, Finite 0, 0, replicate 7 0) of
        (w_workouts, w_calories, w_minutes, breakdown) \<Rightarrow>
          \<lparr>wk_workouts = w_workouts,
           wk_calories = round1 w_calories,
           wk_minutes = w_minutes,
           daily_breakdown = breakdown,
           goal_progress =
             of_int w_workouts / of_int (max (weekly_workouts (goals (data dm))) 1) * 100\<rparr>)"

text \<open>
  The specification's week of a reference date: from its Monday up to, and not including,
  the next Monday.
\<close>

definition spec_current_week :: "datetime \<Rightarrow> entry \<Rightarrow> bool" where
  "spec_current_week today e =
     (week_start today \<le> toordinal (date e) \<and> toordinal (date e) < week_start today + 7)"

section \<open>The countdown timer\<close>

text \<open>
  \<^verbatim>\<open>ExerciseTimer\<close>. Its three fields are shared between the caller and the threads that
  \<^verbatim>\<open>start\<close> creates, so \<^verbatim>\<open>_run\<close> is modelled statement by statement: a thread is the
  place where it stands in \<^verbatim>\<open>_run\<close>, one step executes one statement (a test, a sleep, an
  assignment, a call of the callback), and the caller's \<^verbatim>\<open>pause\<close>, \<^verbatim>\<open>resume\<close>, \<^verbatim>\<open>stop\<close>
  and \<^verbatim>\<open>start\<close> may happen between any two steps. How long a sleep lasts is not modelled:
  a sleeping thread is one that has not taken its next step yet.
\<close>

datatype location =
    AtWhile          \<comment> \<open>line 216, the loop test\<close>
  | AtIfPaused       \<comment> \<open>line 217\<close>
  | AtSleep          \<comment> \<open>line 218, \<^verbatim>\<open>time.sleep(1)\<close>\<close>
  | AtRecheck        \<comment> \<open>line 219\<close>
  | AtDecrement      \<comment> \<open>line 220\<close>
  | AtCallback       \<comment> \<open>line 221\<close>
  | AtShortSleep     \<comment> \<open>line 223, \<^verbatim>\<open>time.sleep(0.1)\<close>\<close>
  | AtIfRunning      \<comment> \<open>line 225\<close>
  | AtSetRunning     \<comment> \<open>line 226\<close>
  | AtFinalCallback  \<comment> \<open>line 227\<close>
  | Finished

record exercise_timer =
  running :: bool
  paused :: bool
  seconds_remaining :: int
  threads :: "location list"

definition new_timer :: exercise_timer where
  "new_timer = \<lparr>running = False, paused = False, seconds_remaining = 0, threads = []\<rparr>"

definition start :: "int \<Rightarrow> exercise_timer \<Rightarrow> exercise_timer" where
  "start seconds t =
     t\<lparr>seconds_remaining := seconds, running := True, paused := False,
       threads := threads t @ [AtWhile]\<rparr>"

definition pause :: "exercise_timer \<Rightarrow> exercise_timer" where
  "pause t = t\<lparr>paused := True\<rparr>"

definition resume :: "exercise_timer \<Rightarrow> exercise_timer" where
  "resume t = t\<lparr>paused := False\<rparr>"

definition stop :: "exercise_timer \<Rightarrow> exercise_timer" where
  "stop t = t\<lparr>running := False, paused := False\<rparr>"

text \<open>
  One statement of \<^verbatim>\<open>_run\<close>, executed by a thread standing at the given place: the place
  it goes to, the fields afterwards, and the arguments of the callback when the statement
  is one of the two calls of \<^verbatim>\<open>self.callback\<close>.
\<close>

fun run_statement ::
  "location \<Rightarrow> exercise_timer \<Rightarrow> location \<times> exercise_timer \<times> (int \<times> bool) option" where
  "run_statement AtWhile t =
     (if running t \<and> 0 < seconds_remaining t then (AtIfPaused, t, None)
      else (AtIfRunning, t, None))"
| "run_statement AtIfPaused t =
     (if \<not> paused t then (AtSleep, t, None) else (AtShortSleep, t, None))"
| "run_statement AtSleep t = (AtRecheck, t, None)"
| "run_statement AtRecheck t =
     (if \<not> paused t \<and> running t then (AtDecrement, t, None) else (AtWhile, t, None))"
| "run_statement AtDecrement t =
     (AtCallback, t\<lparr>seconds_remaining := seconds_remaining t - 1\<rparr>, None)"
| "run_statement AtCallback t = (AtWhile, t, Some (seconds_remaining t, running t))"
| "run_statement AtShortSleep t = (AtWhile, t, None)"
| "run_statement AtIfRunning t =
     (if running t then (AtSetRunning, t, None) else (Finished, t, None))"
| "run_statement AtSetRunning t = (AtFinalCallback, t\<lparr>running := False\<rparr>, None)"
| "run_statement AtFinalCallback t = (Finished, t, Some (0, False))"
| "run_statement Finished t = (Finished, t, None)"

definition thread_step :: "nat \<Rightarrow> exercise_timer \<Rightarrow> exercise_timer \<times> (int \<times> bool) option" where
  "thread_step i t =
     (if i < length (threads t) then
        (case run_statement (threads t ! i) t of
           (l, t', cb) \<Rightarrow> (t'\<lparr>threads := (threads t')[i := l]\<rparr>, cb))
      else (t, None))"

text \<open>
  A timer on its own: what the caller and the threads do, in the order in which it
  happens, and the calls of the callback that result, oldest first.
\<close>

datatype action = Start int | Pause | Resume | Stop | Step nat

fun perform ::
  "exercise_timer \<times> (int \<times> bool) list \<Rightarrow> action \<Rightarrow> exercise_timer \<times> (int \<times> bool) list" where
  "perform (t, cbs) (Start seconds) = (start seconds t, cbs)"
| "perform (t, cbs) Pause = (pause t, cbs)"
| "perform (t, cbs) Resume = (resume t, cbs)"
| "perform (t, cbs) Stop = (stop t, cbs)"
| "perform (t, cbs) (Step i) =
     (case thread_step i t of
        (t', None) \<Rightarrow> (t', cbs)
      | (t', Some cb) \<Rightarrow> (t', cbs @ [cb]))"

definition run_schedule :: "action list \<Rightarrow> exercise_timer \<times> (int \<times> bool) list" where
  "run_schedule as = foldl perform (new_timer, []) as"

definition terminal_callbacks :: "(int \<times> bool) list \<Rightarrow> nat" where
  "terminal_callbacks cbs = length (filter (\<lambda>cb. cb = (0, False)) cbs)"

text \<open>The places of \<^verbatim>\<open>_run\<close> from which a thread that finds \<^verbatim>\<open>running\<close> false calls nothing any more.\<close>

fun quiet_place :: "location \<Rightarrow> bool" where
  "quiet_place AtDecrement = False"
| "quiet_place AtCallback = False"
| "quiet_place AtSetRunning = False"
| "quiet_place AtFinalCallback = False"
| "quiet_place _ = True"


section \<open>Strings and \<^verbatim>\<open>float()\<close>\<close>

text \<open>
  A Python \<^verbatim>\<open>str\<close> is a list of characters; the model covers the strings whose code
  points are below 256. \<^verbatim>\<open>str.strip()\<close> removes the characters for which
  \<^verbatim>\<open>str.isspace\<close> holds from both ends.
\<close>

definition py_isspace :: "char \<Rightarrow> bool" where
  "py_isspace c = ((of_char c :: nat) \<in> {9, 10, 11, 12, 13, 28, 29, 30, 31, 32, 133, 160})"

definition strip :: "string \<Rightarrow> string" where
  "strip s = rev (dropWhile py_isspace (rev (dropWhile py_isspace s)))"

text \<open>
  The built-in \<^verbatim>\<open>float(s)\<close> on a string, after CPython's \<^verbatim>\<open>PyFloat_FromString\<close>: an
  underscore is allowed only between two digits and is dropped; white space is removed at
  both ends (the control characters 28 to 31 are not white space here); then come an
  optional sign and either \<^verbatim>\<open>inf\<close>, \<^verbatim>\<open>infinity\<close> or \<^verbatim>\<open>nan\<close> in any case, or digits
  with an optional point and an optional exponent, with at least one digit before the
  exponent and nothing after the number. \<open>None\<close> is \<^verbatim>\<open>ValueError\<close>. The value is the
  decimal number itself (see \<open>pyfloat\<close>), and \<^verbatim>\<open>-0\<close> is 0.
\<close>

definition float_space :: "char \<Rightarrow> bool" where
  "float_space c = ((of_char c :: nat) \<in> {9, 10, 11, 12, 13, 32, 133, 160})"

definition is_digit :: "char \<Rightarrow> bool" where
  "is_digit c = (48 \<le> (of_char c :: nat) \<and> (of_char c :: nat) \<le> 57)"

definition digit_value :: "char \<Rightarrow> int" where
  "digit_value c = int (of_char c) - 48"

definition digits_value :: "string \<Rightarrow> int" where
  "digits_value ds = foldl (\<lambda>a c. 10 * a + digit_value c) 0 ds"

fun underscores_ok :: "char \<Rightarrow> string \<Rightarrow> bool" where
  "underscores_ok prev [] = (prev \<noteq> CHR ''_'')"
| "underscores_ok prev (c # cs) =
     (if c = CHR ''_'' then is_digit prev \<and> underscores_ok c cs
      else if prev = CHR ''_'' then is_digit c \<and> underscores_ok c cs
      else underscores_ok c cs)"

definition same_letter :: "char \<Rightarrow> char \<Rightarrow> bool" where
  \<comment> \<open>\<open>p\<close> is a lower-case letter; \<open>c\<close> is that letter in either case\<close>
  "same_letter p c = (c = p \<or> (of_char c :: nat) + 32 = of_char p)"

fun matches_word :: "string \<Rightarrow> string \<Rightarrow> bool" where
  "matches_word [] [] = True"
| "matches_word (p # ps) (c # cs) = (same_letter p c \<and> matches_word ps cs)"
| "matches_word _ _ = False"

definition scale10 :: "int \<Rightarrow> int \<Rightarrow> rat" where
  "scale10 m e = (if 0 \<le> e then of_int (m * 10 ^ nat e) else of_int m / of_int (10 ^ nat (- e)))"

definition parse_exponent :: "string \<Rightarrow> int option" where
  "parse_exponent s =
     (case s of
        [] \<Rightarrow> Some 0
      | c # cs \<Rightarrow>
          if c = CHR ''e'' \<or> c = CHR ''E'' then
            (case cs of
               [] \<Rightarrow> None
             | d # ds \<Rightarrow>
                 if d = CHR ''-'' then
                   (if ds \<noteq> [] \<and> list_all is_digit ds then Some (- digits_value ds) else None)
                 else if d = CHR ''+'' then
                   (if ds \<noteq> [] \<and> list_all is_digit ds then Some (digits_value ds) else None)
                 else if list_all is_digit cs then Some (digits_value cs) else None)
          else None)"

definition parse_decimal :: "string \<Rightarrow> rat option" where
  "parse_decimal s =
     (let int_part = takeWhile is_digit s;
          r = dropWhile is_digit s;
          has_point = (r \<noteq> [] \<and> hd r = CHR ''.'');
          frac_part = (if has_point then takeWhile is_digit (tl r) else []);
          r2 = (if has_point then dropWhile is_digit (tl r) else r)
      in if int_part = [] \<and> frac_part = [] then None
         else (case parse_exponent r2 of
                 None \<Rightarrow> None
               | Some e \<Rightarrow>
                   Some (scale10 (digits_value (int_part @ frac_part)) (e - int (length frac_part)))))"

definition parse_unsigned :: "string \<Rightarrow> pyfloat option" where
  "parse_unsigned s =
     (if matches_word ''inf'' s \<or> matches_word ''infinity'' s then Some PosInf
      else if matches_word ''nan'' s then Some NaN
      else map_option Finite (parse_decimal s))"

fun negate :: "pyfloat \<Rightarrow> pyfloat" where
  "negate (Finite q) = Finite (- q)"
| "negate PosInf = NegInf"
| "negate NegInf = PosInf"
| "negate NaN = NaN"

definition py_float :: "string \<Rightarrow> pyfloat option" where
  "py_float s =
     (if \<not> underscores_ok (CHR 0x00) s then None
      else
        (let t = filter (\<lambda>c. c \<noteq> CHR ''_'') s;
             u = rev (dropWhile float_space (rev (dropWhile float_space t)))
         in case u of
              [] \<Rightarrow> None
            | c # cs \<Rightarrow>
                if c = CHR ''-'' then map_option negate (parse_unsigned cs)
                else if c = CHR ''+'' then parse_unsigned cs
                else parse_unsigned u))"

text \<open>A float that is a number and is not below zero.\<close>

fun non_negative :: "pyfloat \<Rightarrow> bool" where
  "non_negative (Finite q) = (0 \<le> q)"
| "non_negative PosInf = True"
| "non_negative _ = False"


section \<open>The application\<close>

text \<open>
  \<^verbatim>\<open>FitnessApp\<close>. Of the window, the model keeps what the session logic writes: every text
  given to the status label (oldest first), the text of the timer label, and the message
  boxes shown. The labels' Hebrew texts are constructors; the icon is an opaque string.
  \<open>events\<close> are the callbacks queued with \<^verbatim>\<open>root.after\<close> and not run yet, oldest first.
  \<open>clock\<close> gives the successive readings of \<^verbatim>\<open>datetime.now()\<close> and \<open>clock_reads\<close> counts
  the readings made so far. Button states and the dashboard widgets are left out.
\<close>

datatype status =
    StatusChoose                         \<comment> \<open>the idle text\<close>
  | StatusSet string string int int int  \<comment> \<open>icon, exercise, set, of sets, repetitions\<close>
  | StatusRest

datatype timer_text = Clock int int | Go

datatype message =
    WarnSelectWorkout
  | InfoWorkoutDone pyfloat int
  | ErrorInvalidCalories
  | ErrorFillAllFields
  | InfoExerciseAdded string

datatype event = StartRest int | Update int bool

datatype app_error = KeyError string

record fitness_app =
  data_manager :: data_manager
  timer :: exercise_timer
  current_workout :: "workout option"
  current_exercise_index :: nat
  current_set :: int
  workout_start_time :: "datetime option"
  session_calories :: pyfloat  \<comment> \<open>\<^verbatim>\<open>self.calories_burned\<close>\<close>
  workout_var :: string
  status_texts :: "status list"
  timer_label :: timer_text
  messages :: "message list"
  events :: "event list"
  clock :: "nat \<Rightarrow> datetime"
  clock_reads :: nat

definition default_icon :: string where
  "default_icon = ''flexed biceps''"

definition new_app :: "data_manager \<Rightarrow> (nat \<Rightarrow> datetime) \<Rightarrow> fitness_app" where
  "new_app dm clk =
     \<lparr>data_manager = dm, timer = new_timer, current_workout = None,
      current_exercise_index = 0, current_set = 0, workout_start_time = None,
      session_calories = Finite 0, workout_var = [], status_texts = [],
      timer_label = Clock 0 0, messages = [], events = [], clock = clk, clock_reads = 0\<rparr>"

text \<open>
  \<^verbatim>\<open>(now - start).seconds\<close>: the seconds field of the normalised difference, which leaves
  out its whole days and its microseconds.
\<close>

definition elapsed_seconds :: "datetime \<Rightarrow> datetime \<Rightarrow> int" where
  "elapsed_seconds now t0 =
     ((days_between (dt_date now) (dt_date t0) * 86400000000 + (dt_micros now - dt_micros t0))
        mod 86400000000) div 1000000"

text \<open>
  \<^verbatim>\<open>_complete_workout\<close>. It reads the clock once itself, \<^verbatim>\<open>add_workout_to_history\<close> reads
  it twice, and the refresh of the dashboard once more.
\<close>

definition complete_workout :: "fitness_app \<Rightarrow> fitness_app" where
  "complete_workout st =
     (let n = clock_reads st;
          duration = (case workout_start_time st of
                        Some t0 \<Rightarrow> elapsed_seconds (clock st n) t0 div 60
                      | None \<Rightarrow> 0);
          st1 = (case workout_start_time st of
                   Some t0 \<Rightarrow>
                     st\<lparr>data_manager :=
                          add_workout_to_history (clock st (n + 1)) (clock st (n + 2))
                            (workout_var st)
                            (case current_workout st of
                               Some w \<Rightarrow> workout_exercises w
                             | None \<Rightarrow> [])
                            (max duration 1)
                            (session_calories st)
                            (data_manager st),
                        clock_reads := n + 3\<rparr>
                 | None \<Rightarrow> st)
      in st1\<lparr>messages := messages st1 @ [InfoWorkoutDone (round1 (session_calories st)) duration],
             current_workout := None,
             workout_start_time := None,
             timer_label := Clock 0 0,
             status_texts := status_texts st1 @ [StatusChoose],
             clock_reads := clock_reads st1 + 1\<rparr>)"

text \<open>
  \<^verbatim>\<open>_next_exercise\<close>. The call of line 699 is the recursion; it ends because the exercise
  index grows towards the number of steps.
\<close>

function next_exercise :: "fitness_app \<Rightarrow> fitness_app" where
  "next_exercise st =
     (case current_workout st of
        None \<Rightarrow> st
      | Some w \<Rightarrow>
          if length (workout_exercises w) \<le> current_exercise_index st then complete_workout st
          else
            (let current = workout_exercises w ! current_exercise_index st;
                 exercise_data = exercises (data (data_manager st)) (name current);
                 icon_text = (case exercise_data of Some x \<Rightarrow> icon x | None \<Rightarrow> default_icon)
             in if sets current < current_set st then
                  next_exercise
                    (st\<lparr>current_exercise_index := current_exercise_index st + 1,
                        current_set := 1\<rparr>)
                else
                  (let calories =
                         fmul (case exercise_data of
                                 Some x \<Rightarrow> calories_per_rep x
                               | None \<Rightarrow> Finite (1 / 2))
                              (of_pyint (reps current))
                   in st\<lparr>status_texts := status_texts st @
                            [StatusSet icon_text (name current) (current_set st) (sets current)
                               (reps current)],
                         session_calories := fadd (session_calories st) calories,
                         timer_label := Go,
                         events := events st @ [StartRest (rest current)]\<rparr>)))"
  by pat_completeness auto
termination
  by (relation "measure (\<lambda>st. case current_workout st of
                   None \<Rightarrow> 0
                 | Some w \<Rightarrow> length (workout_exercises w) - current_exercise_index st)")
     auto

declare next_exercise.simps [simp del]

text \<open>
  \<^verbatim>\<open>_start_workout\<close>. The selected name is looked up with \<^verbatim>\<open>[...]\<close>, which raises
  \<^verbatim>\<open>KeyError\<close> for a name that is not a workout.
\<close>

definition start_workout :: "fitness_app \<Rightarrow> app_error + fitness_app" where
  "start_workout st =
     (let workout_name = workout_var st
      in if workout_name = [] then Inr (st\<lparr>messages := messages st @ [WarnSelectWorkout]\<rparr>)
         else
           (case workouts (data (data_manager st)) workout_name of
              None \<Rightarrow> Inl (KeyError workout_name)
            | Some w \<Rightarrow>
                Inr (next_exercise
                       (st\<lparr>current_workout := Some w,
                           current_exercise_index := 0,
                           current_set := 1,
                           workout_start_time := Some (clock st (clock_reads st)),
                           clock_reads := clock_reads st + 1,
                           session_calories := Finite 0\<rparr>))))"

definition start_rest :: "int \<Rightarrow> fitness_app \<Rightarrow> fitness_app" where
  "start_rest seconds st =
     (case current_workout st of
        None \<Rightarrow> st
      | Some w \<Rightarrow>
          st\<lparr>status_texts := status_texts st @ [StatusRest],
             current_set := current_set st + 1,
             timer := start seconds (timer st)\<rparr>)"

text \<open>
  \<^verbatim>\<open>_timer_callback\<close> runs on the timer's thread and only queues \<^verbatim>\<open>update\<close>; the event
  loop runs \<^verbatim>\<open>update\<close> later.
\<close>

definition timer_callback :: "int \<Rightarrow> bool \<Rightarrow> fitness_app \<Rightarrow> fitness_app" where
  "timer_callback seconds is_running st = st\<lparr>events := events st @ [Update seconds is_running]\<rparr>"

definition update :: "int \<Rightarrow> bool \<Rightarrow> fitness_app \<Rightarrow> fitness_app" where
  "update seconds is_running st =
     (let st1 = st\<lparr>timer_label := Clock (seconds div 60) (seconds mod 60)\<rparr>
      in if \<not> is_running then next_exercise st1 else st1)"

definition pause_workout :: "fitness_app \<Rightarrow> fitness_app" where
  "pause_workout st =
     (if paused (timer st) then st\<lparr>timer := resume (timer st)\<rparr>
      else st\<lparr>timer := pause (timer st)\<rparr>)"

definition skip_rest :: "fitness_app \<Rightarrow> fitness_app" where
  "skip_rest st = next_exercise (st\<lparr>timer := stop (timer st)\<rparr>)"

definition stop_workout :: "bool \<Rightarrow> fitness_app \<Rightarrow> fitness_app" where
  \<comment> \<open>the argument is the user's answer to the confirmation box\<close>
  "stop_workout confirmed st =
     (if confirmed then complete_workout (st\<lparr>timer := stop (timer st)\<rparr>) else st)"

text \<open>
  \<^verbatim>\<open>_add_exercise\<close>, with the contents of the three entry fields as arguments. Both
  failures show an error box and return.
\<close>

definition add_exercise :: "string \<Rightarrow> string \<Rightarrow> string \<Rightarrow> fitness_app \<Rightarrow> fitness_app" where
  "add_exercise name_field category_field calories_field st =
     (let new_name = strip name_field;
          new_category = strip category_field
      in case py_float calories_field of
           None \<Rightarrow> st\<lparr>messages := messages st @ [ErrorInvalidCalories]\<rparr>
         | Some calories \<Rightarrow>
             if new_name = [] \<or> new_category = [] then
               st\<lparr>messages := messages st @ [ErrorFillAllFields]\<rparr>
             else
               (let dm = data_manager st;
                    d = data dm;
                    dm1 = save_data
                            (dm\<lparr>data := d\<lparr>exercises := (exercises d)
                               (new_name \<mapsto>
                                  \<lparr>category = new_category, calories_per_rep = calories,
                                   icon = default_icon\<rparr>)\<rparr>\<rparr>)
                in st\<lparr>data_manager := dm1,
                      messages := messages st @ [InfoExerciseAdded new_name]\<rparr>))"

text \<open>
  A session left to itself (no pause, skip or stop): the event loop runs the oldest queued
  callback; when nothing is queued, the timer's thread executes its next statement and
  its callback queues an \<^verbatim>\<open>update\<close>; when nothing is queued and no thread is alive, the
  run is over. The first argument bounds the number of steps.
\<close>

fun handle :: "event \<Rightarrow> fitness_app \<Rightarrow> fitness_app" where
  "handle (StartRest seconds) st = start_rest seconds st"
| "handle (Update seconds is_running) st = update seconds is_running st"

fun first_live :: "location list \<Rightarrow> nat option" where
  "first_live [] = None"
| "first_live (l # ls) = (if l = Finished then map_option Suc (first_live ls) else Some 0)"

definition app_thread_step :: "nat \<Rightarrow> fitness_app \<Rightarrow> fitness_app" where
  "app_thread_step i st =
     (case thread_step i (timer st) of
        (t, None) \<Rightarrow> st\<lparr>timer := t\<rparr>
      | (t, Some (seconds, is_running)) \<Rightarrow> timer_callback seconds is_running (st\<lparr>timer := t\<rparr>))"

fun run_unattended :: "nat \<Rightarrow> fitness_app \<Rightarrow> fitness_app option" where
  "run_unattended 0 st = None"
| "run_unattended (Suc fuel) st =
     (case events st of
        e # es \<Rightarrow> run_unattended fuel (handle e (st\<lparr>events := es\<rparr>))
      | [] \<Rightarrow>
          (case first_live (threads (timer st)) of
             Some i \<Rightarrow> run_unattended fuel (app_thread_step i st)
           | None \<Rightarrow> Some st))"

definition count_status :: "(status \<Rightarrow> bool) \<Rightarrow> fitness_app \<Rightarrow> nat" where
  "count_status p st = length (filter p (status_texts st))"

fun is_set :: "status \<Rightarrow> bool" where
  "is_set (StatusSet _ _ _ _ _) = True"
| "is_set _ = False"

fun is_rest :: "status \<Rightarrow> bool" where
  "is_rest StatusRest = True"
| "is_rest _ = False"


section \<open>Sample inputs and auxiliary notions\<close>

definition mk_date :: "int \<Rightarrow> int \<Rightarrow> int \<Rightarrow> date" where
  "mk_date y m d = \<lparr>year = y, month = m, day = d\<rparr>"

definition midnight :: "date \<Rightarrow> datetime" where
  "midnight d = \<lparr>dt_date = d, dt_micros = 0\<rparr>"

definition fixed_clock :: "date \<Rightarrow> nat \<Rightarrow> datetime" where
  "fixed_clock d n = midnight d"

definition simple_call :: "date \<Rightarrow> int \<Rightarrow> pyfloat \<Rightarrow> session_call" where
  "simple_call d mins cal =
     \<lparr>call_now = midnight d, call_stamp = midnight d, call_name = ''W'', call_steps = [],
      call_minutes = mins, call_calories = cal\<rparr>"

definition simple_entry :: "date \<Rightarrow> int \<Rightarrow> pyfloat \<Rightarrow> entry" where
  "simple_entry d mins cal =
     \<lparr>date = d, timestamp = midnight d, workout_name = ''W'', exercises_completed = [],
      duration_minutes = mins, calories_burned = cal\<rparr>"

text \<open>A manager holding a given history and weekly goal, and one holding given streak statistics.\<close>

definition manager_with :: "entry list \<Rightarrow> int \<Rightarrow> data_manager" where
  "manager_with h g =
     \<lparr>data = (default_data Map.empty Map.empty)
        \<lparr>history := h, goals := \<lparr>weekly_workouts = g, daily_calories = 300\<rparr>\<rparr>,
      data_file = None\<rparr>"

definition manager_with_stats :: "date option \<Rightarrow> int \<Rightarrow> int \<Rightarrow> data_manager" where
  "manager_with_stats last_date s b =
     \<lparr>data = (default_data Map.empty Map.empty)
        \<lparr>user_stats := default_stats\<lparr>streak := s, best_streak := b, last_workout_date := last_date\<rparr>\<rparr>,
      data_file = None\<rparr>"

text \<open>The record that a call appends, and the sum of the amounts passed to a sequence of calls.\<close>

definition entry_of_call :: "session_call \<Rightarrow> entry" where
  "entry_of_call c =
     \<lparr>date = dt_date (call_now c), timestamp = call_stamp c, workout_name = call_name c,
      exercises_completed = call_steps c, duration_minutes = call_minutes c,
      calories_burned = round1 (call_calories c)\<rparr>"

definition sum_calories :: "session_call list \<Rightarrow> pyfloat" where
  "sum_calories cs = foldl fadd (Finite 0) (map call_calories cs)"

text \<open>
  For the timer: how many statements a stopped thread still executes from a place, the
  state of a stopped timer whose thread stands at a quiet place, the actions that leave a
  countdown undisturbed (thread steps, pauses and resumes), what holds throughout an
  undisturbed countdown, and the callbacks of a countdown of \<open>n\<close> seconds before the last
  one.
\<close>

fun place_rank :: "location \<Rightarrow> nat" where
  "place_rank Finished = 0"
| "place_rank AtIfRunning = 1"
| "place_rank AtWhile = 2"
| "place_rank AtRecheck = 3"
| "place_rank AtShortSleep = 3"
| "place_rank AtSleep = 4"
| "place_rank AtIfPaused = 5"
| "place_rank _ = 6"

definition stopped_quiet :: "nat \<Rightarrow> exercise_timer \<Rightarrow> bool" where
  "stopped_quiet i t =
     (\<not> running t \<and> \<not> paused t \<and> i < length (threads t) \<and> quiet_place (threads t ! i))"

fun undisturbed :: "action \<Rightarrow> bool" where
  "undisturbed (Start seconds) = False"
| "undisturbed Stop = False"
| "undisturbed _ = True"

definition countdown_inv :: "exercise_timer \<times> (int \<times> bool) list \<Rightarrow> bool" where
  "countdown_inv s =
     (case s of (t, cbs) \<Rightarrow>
        length (threads t) = 1 \<and>
        running t = (threads t ! 0 \<noteq> AtFinalCallback \<and> threads t ! 0 \<noteq> Finished) \<and>
        terminal_callbacks cbs = (if threads t ! 0 = Finished then 1 else 0))"

definition ticks :: "nat \<Rightarrow> (int \<times> bool) list" where
  "ticks n = map (\<lambda>i. (int i, True)) (rev [0..<n])"

definition sleeping_timer :: exercise_timer where
  "sleeping_timer = \<lparr>running = True, paused = False, seconds_remaining = 5, threads = [AtSleep]\<rparr>"

text \<open>
  For the session: the one-step template of the specification's example, the calories per
  repetition that \<^verbatim>\<open>_next_exercise\<close> uses for a name, an application in which a workout
  has been selected, and the states of the example's run after \<^verbatim>\<open>_start_workout\<close> and at
  its end; \<open>counting\<close> is an application whose newest timer thread stands at a place while
  the earlier ones have finished.
\<close>

definition step_A :: exercise_step where
  "step_A = \<lparr>name = ''A'', sets = 2, reps = 10, rest = 5\<rparr>"

definition workout_A :: "string \<Rightarrow> workout" where
  "workout_A desc = \<lparr>workout_exercises = [step_A], description = desc\<rparr>"

definition calories_per_rep_of :: "document \<Rightarrow> string \<Rightarrow> pyfloat" where
  "calories_per_rep_of d n =
     (case exercises d n of Some x \<Rightarrow> calories_per_rep x | None \<Rightarrow> Finite (1 / 2))"

definition icon_of :: "document \<Rightarrow> string \<Rightarrow> string" where
  "icon_of d n = (case exercises d n of Some x \<Rightarrow> icon x | None \<Rightarrow> default_icon)"

definition selected :: "string \<Rightarrow> data_manager \<Rightarrow> (nat \<Rightarrow> datetime) \<Rightarrow> fitness_app" where
  "selected wn dm clk = (new_app dm clk)\<lparr>workout_var := wn\<rparr>"

definition session_result :: "nat \<Rightarrow> fitness_app \<Rightarrow> fitness_app option" where
  "session_result fuel st =
     (case start_workout st of Inl err \<Rightarrow> None | Inr st1 \<Rightarrow> run_unattended fuel st1)"

definition countdowns_started :: "fitness_app \<Rightarrow> nat" where
  "countdowns_started st = length (threads (timer st))"

definition started_A :: "string \<Rightarrow> string \<Rightarrow> data_manager \<Rightarrow> (nat \<Rightarrow> datetime) \<Rightarrow> fitness_app" where
  "started_A wn desc dm clk =
     (selected wn dm clk)
       \<lparr>current_workout := Some (workout_A desc), current_exercise_index := 0, current_set := 1,
        workout_start_time := Some (clk 0), clock_reads := 1,
        status_texts := [StatusSet (icon_of (data dm) ''A'') ''A'' 1 2 10],
        session_calories := fadd (Finite 0) (fmul (calories_per_rep_of (data dm) ''A'') (Finite 10)),
        timer_label := Go, events := [StartRest 5]\<rparr>"

definition finished_A :: "string \<Rightarrow> string \<Rightarrow> data_manager \<Rightarrow> (nat \<Rightarrow> datetime) \<Rightarrow> fitness_app" where
  "finished_A wn desc dm clk =
     \<lparr>data_manager =
        add_workout_to_history (clk 2) (clk 3) wn [step_A]
          (max (elapsed_seconds (clk 1) (clk 0) div 60) 1)
          (fmul (Finite 20) (calories_per_rep_of (data dm) ''A'')) dm,
      timer = \<lparr>running = False, paused = False, seconds_remaining = 0,
                threads = [Finished, Finished]\<rparr>,
      current_workout = None,
      current_exercise_index = 1,
      current_set = 1,
      workout_start_time = None,
      session_calories = fmul (Finite 20) (calories_per_rep_of (data dm) ''A''),
      workout_var = wn,
      status_texts =
        [StatusSet (icon_of (data dm) ''A'') ''A'' 1 2 10, StatusRest,
         StatusSet (icon_of (data dm) ''A'') ''A'' 2 2 10, StatusRest,
         StatusChoose],
      timer_label = Clock 0 0,
      messages = [InfoWorkoutDone (round1 (fmul (Finite 20) (calories_per_rep_of (data dm) ''A'')))
                    (elapsed_seconds (clk 1) (clk 0) div 60)],
      events = [],
      clock = clk,
      clock_reads = 5\<rparr>"

definition counting ::
  "nat \<Rightarrow> location \<Rightarrow> int \<Rightarrow> bool \<Rightarrow> event list \<Rightarrow> fitness_app \<Rightarrow> fitness_app" where
  "counting m l s r es st =
     st\<lparr>timer := \<lparr>running = r, paused = False, seconds_remaining = s,
                  threads = replicate m Finished @ [l]\<rparr>,
        events := es\<rparr>"

definition sample_manager :: data_manager where
  "sample_manager =
     fresh_manager
       [''A'' \<mapsto> \<lparr>category = ''legs'', calories_per_rep = Finite (1 / 2), icon = default_icon\<rparr>]
       [''W'' \<mapsto> workout_A ''one step'']"

definition sample_app :: fitness_app where
  "sample_app = selected ''W'' sample_manager (fixed_clock (mk_date 2024 3 4))"

definition empty_app :: fitness_app where
  "empty_app = new_app (fresh_manager Map.empty Map.empty) (fixed_clock (mk_date 2024 3 4))"

definition presenting_app :: fitness_app where
  "presenting_app =
     (new_app (fresh_manager Map.empty [''W'' \<mapsto> workout_A ''one step''])
        (fixed_clock (mk_date 2024 3 4)))
       \<lparr>current_workout := Some (workout_A ''one step''), current_set := 1\<rparr>"


section \<open>Recording sessions: the streak\<close>

lemma toordinal_march_2024:
  "toordinal (mk_date 2024 3 4) = 738949" "toordinal (mk_date 2024 3 5) = 738950"
  "toordinal (mk_date 2024 3 6) = 738951" "toordinal (mk_date 2024 3 7) = 738952"
  "toordinal (mk_date 2024 3 10) = 738955" "toordinal (mk_date 2024 3 11) = 738956"
  "toordinal (mk_date 2024 3 12) = 738957"
  by (simp_all add: toordinal_def mk_date_def days_before_year_def days_before_month_def
      is_leap_def Let_def)

text \<open>
  Claim C1. For every prior state of the statistics, \<^verbatim>\<open>add_workout_to_history\<close> sets the
  streak by the transition rule: with no prior session (no last workout date) the streak
  becomes 1; otherwise, with the gap being the whole days from the last workout date to
  today, a gap of 1 adds 1 to the streak, a gap above 1 makes it 1, and a gap of 0 leaves
  it as it was. Afterwards the last workout date is today.
\<close>

theorem streak_transition:
  "(last_workout_date (user_stats (data dm)) = None \<longrightarrow>
      streak (user_stats (data (add_workout_to_history now1 now2 w xs dur cal dm))) = 1) \<and>
   (\<forall>last_date. last_workout_date (user_stats (data dm)) = Some last_date \<longrightarrow>
      (days_between (dt_date now1) last_date = 1 \<longrightarrow>
         streak (user_stats (data (add_workout_to_history now1 now2 w xs dur cal dm)))
           = streak (user_stats (data dm)) + 1) \<and>
      (1 < days_between (dt_date now1) last_date \<longrightarrow>
         streak (user_stats (data (add_workout_to_history now1 now2 w xs dur cal dm))) = 1) \<and>
      (days_between (dt_date now1) last_date = 0 \<longrightarrow>
         streak (user_stats (data (add_workout_to_history now1 now2 w xs dur cal dm)))
           = streak (user_stats (data dm)))) \<and>
   last_workout_date (user_stats (data (add_workout_to_history now1 now2 w xs dur cal dm)))
     = Some (dt_date now1)"
  by (simp add: add_workout_to_history_def save_data_def Let_def split: option.splits)

theorem streak_transition_witness:
  "last_workout_date (user_stats (data (manager_with_stats None 0 0))) = None \<and>
   streak (user_stats (data (add_workout_to_history (midnight (mk_date 2024 3 5))
     (midnight (mk_date 2024 3 5)) ''W'' [] 30 (Finite 50) (manager_with_stats None 0 0)))) = 1 \<and>
   last_workout_date (user_stats (data (manager_with_stats (Some (mk_date 2024 3 4)) 3 5)))
     = Some (mk_date 2024 3 4) \<and>
   days_between (mk_date 2024 3 5) (mk_date 2024 3 4) = 1 \<and>
   streak (user_stats (data (add_workout_to_history (midnight (mk_date 2024 3 5))
     (midnight (mk_date 2024 3 5)) ''W'' [] 30 (Finite 50)
     (manager_with_stats (Some (mk_date 2024 3 4)) 3 5)))) = 4 \<and>
   1 < days_between (mk_date 2024 3 7) (mk_date 2024 3 4) \<and>
   streak (user_stats (data (add_workout_to_history (midnight (mk_date 2024 3 7))
     (midnight (mk_date 2024 3 7)) ''W'' [] 30 (Finite 50)
     (manager_with_stats (Some (mk_date 2024 3 4)) 3 5)))) = 1 \<and>
   days_between (mk_date 2024 3 4) (mk_date 2024 3 4) = 0 \<and>
   streak (user_stats (data (add_workout_to_history (midnight (mk_date 2024 3 4))
     (midnight (mk_date 2024 3 4)) ''W'' [] 30 (Finite 50)
     (manager_with_stats (Some (mk_date 2024 3 4)) 3 5)))) = 3 \<and>
   last_workout_date (user_stats (data (add_workout_to_history (midnight (mk_date 2024 3 4))
     (midnight (mk_date 2024 3 4)) ''W'' [] 30 (Finite 50)
     (manager_with_stats (Some (mk_date 2024 3 4)) 3 5)))) = Some (mk_date 2024 3 4)"
proof -
  have none: "last_workout_date (user_stats (data (manager_with_stats None 0 0))) = None"
    by (simp add: manager_with_stats_def default_data_def default_stats_def)
  have some: "last_workout_date (user_stats (data (manager_with_stats (Some (mk_date 2024 3 4)) 3 5)))
      = Some (mk_date 2024 3 4)"
    "streak (user_stats (data (manager_with_stats (Some (mk_date 2024 3 4)) 3 5))) = 3"
    by (simp_all add: manager_with_stats_def default_data_def default_stats_def)
  have gaps: "days_between (mk_date 2024 3 5) (mk_date 2024 3 4) = 1"
    "1 < days_between (mk_date 2024 3 7) (mk_date 2024 3 4)"
    "days_between (mk_date 2024 3 4) (mk_date 2024 3 4) = 0"
    by (simp_all add: days_between_def toordinal_march_2024)
  have today: "dt_date (midnight d) = d" for d
    by (simp add: midnight_def)
  show ?thesis
    using none some gaps
      streak_transition [of "manager_with_stats None 0 0" "midnight (mk_date 2024 3 5)"
        "midnight (mk_date 2024 3 5)" "''W''" "[]" 30 "Finite 50"]
      streak_transition [of "manager_with_stats (Some (mk_date 2024 3 4)) 3 5"
        "midnight (mk_date 2024 3 5)" "midnight (mk_date 2024 3 5)" "''W''" "[]" 30 "Finite 50"]
      streak_transition [of "manager_with_stats (Some (mk_date 2024 3 4)) 3 5"
        "midnight (mk_date 2024 3 7)" "midnight (mk_date 2024 3 7)" "''W''" "[]" 30 "Finite 50"]
      streak_transition [of "manager_with_stats (Some (mk_date 2024 3 4)) 3 5"
        "midnight (mk_date 2024 3 4)" "midnight (mk_date 2024 3 4)" "''W''" "[]" 30 "Finite 50"]
    by (simp add: today)
qed

subsection \<open>Sequences of calls\<close>

lemma record_sessions_snoc:
  "record_sessions (cs @ [c]) dm = record_session (record_sessions cs dm) c"
  by (simp add: record_sessions_def)

lemma consecutive_days_snoc:
  "consecutive_days (call_dates (cs @ [c])) =
     (consecutive_days (call_dates cs) \<and>
      (cs = [] \<or> days_between (dt_date (call_now c)) (dt_date (call_now (last cs))) = 1))"
  by (cases "cs = []")
    (simp_all add: consecutive_days_def call_dates_def successively_append_iff last_map)

lemma record_session_last_date:
  "last_workout_date (user_stats (data (record_session dm c))) = Some (dt_date (call_now c))"
  by (simp add: record_session_def add_workout_to_history_def save_data_def Let_def
      split: option.splits)

lemma record_session_first:
  assumes "last_workout_date (user_stats (data dm)) = None"
  shows "streak (user_stats (data (record_session dm c))) = 1"
    and "best_streak (user_stats (data (record_session dm c)))
           = max 1 (best_streak (user_stats (data dm)))"
  using assms
  by (simp_all add: record_session_def add_workout_to_history_def save_data_def Let_def)

lemma record_session_next_day:
  assumes "last_workout_date (user_stats (data dm)) = Some l"
    and "days_between (dt_date (call_now c)) l = 1"
  shows "streak (user_stats (data (record_session dm c))) = streak (user_stats (data dm)) + 1"
    and "best_streak (user_stats (data (record_session dm c)))
           = max (streak (user_stats (data dm)) + 1) (best_streak (user_stats (data dm)))"
  using assms
  by (simp_all add: record_session_def add_workout_to_history_def save_data_def Let_def)

lemma record_session_gap:
  assumes "last_workout_date (user_stats (data dm)) = Some l"
    and "1 < days_between (dt_date (call_now c)) l"
  shows "streak (user_stats (data (record_session dm c))) = 1"
  using assms
  by (simp add: record_session_def add_workout_to_history_def save_data_def Let_def)

lemma record_session_best_mono:
  "best_streak (user_stats (data dm)) \<le> best_streak (user_stats (data (record_session dm c)))"
  by (simp add: record_session_def add_workout_to_history_def save_data_def Let_def
      split: option.splits)

lemma consecutive_run:
  assumes "consecutive_days (call_dates cs)" and "cs \<noteq> []"
  shows "streak (user_stats (data (record_sessions cs (fresh_manager exs wos)))) = int (length cs) \<and>
         best_streak (user_stats (data (record_sessions cs (fresh_manager exs wos)))) = int (length cs) \<and>
         last_workout_date (user_stats (data (record_sessions cs (fresh_manager exs wos))))
           = Some (dt_date (call_now (last cs)))"
  using assms
proof (induction cs rule: rev_induct)
  case Nil
  then show ?case by simp
next
  case (snoc c cs)
  let ?dm = "record_sessions cs (fresh_manager exs wos)"
  show ?case
  proof (cases "cs = []")
    case True
    have "last_workout_date (user_stats (data (fresh_manager exs wos))) = None"
         "best_streak (user_stats (data (fresh_manager exs wos))) = 0"
      by (simp_all add: fresh_manager_def default_data_def default_stats_def)
    with True show ?thesis
      by (simp add: record_sessions_def record_session_first record_session_last_date)
  next
    case False
    from snoc.prems False have c: "consecutive_days (call_dates cs)"
      and g: "days_between (dt_date (call_now c)) (dt_date (call_now (last cs))) = 1"
      by (simp_all add: consecutive_days_snoc)
    from snoc.IH [OF c False] have ih:
      "streak (user_stats (data ?dm)) = int (length cs)"
      "best_streak (user_stats (data ?dm)) = int (length cs)"
      "last_workout_date (user_stats (data ?dm)) = Some (dt_date (call_now (last cs)))"
      by simp_all
    show ?thesis
      using record_session_next_day [OF ih(3) g] ih
      by (simp add: record_sessions_snoc record_session_last_date)
  qed
qed

lemma three_days_consecutive:
  "consecutive_days (call_dates
     [simple_call (mk_date 2024 3 4) 30 (Finite 50), simple_call (mk_date 2024 3 5) 30 (Finite 50),
      simple_call (mk_date 2024 3 6) 30 (Finite 50)])"
  "consecutive_days (call_dates
     [simple_call (mk_date 2024 3 4) 30 (Finite 50), simple_call (mk_date 2024 3 5) 30 (Finite 50)])"
  by (simp_all add: consecutive_days_def call_dates_def simple_call_def midnight_def
      days_between_def toordinal_march_2024)

text \<open>
  Claim C2. Starting from the default statistics, after \<open>N\<close> calls of
  \<^verbatim>\<open>add_workout_to_history\<close> made on \<open>N\<close> consecutive calendar days (whatever their other
  arguments) the stored streak is \<open>N\<close> and the stored best streak equals the streak.
\<close>

theorem consecutive_days_streak:
  assumes "consecutive_days (call_dates cs)"
  shows "streak (user_stats (data (record_sessions cs (fresh_manager exs wos)))) = int (length cs) \<and>
         best_streak (user_stats (data (record_sessions cs (fresh_manager exs wos))))
           = streak (user_stats (data (record_sessions cs (fresh_manager exs wos))))"
proof (cases "cs = []")
  case True
  then show ?thesis
    by (simp add: record_sessions_def fresh_manager_def default_data_def default_stats_def)
next
  case False
  from consecutive_run [OF assms False, of exs wos] show ?thesis by simp
qed

theorem consecutive_days_streak_witness:
  "consecutive_days (call_dates
     [simple_call (mk_date 2024 3 4) 30 (Finite 50), simple_call (mk_date 2024 3 5) 30 (Finite 50),
      simple_call (mk_date 2024 3 6) 30 (Finite 50)]) \<and>
   streak (user_stats (data (record_sessions
     [simple_call (mk_date 2024 3 4) 30 (Finite 50), simple_call (mk_date 2024 3 5) 30 (Finite 50),
      simple_call (mk_date 2024 3 6) 30 (Finite 50)] (fresh_manager Map.empty Map.empty)))) = 3 \<and>
   best_streak (user_stats (data (record_sessions
     [simple_call (mk_date 2024 3 4) 30 (Finite 50), simple_call (mk_date 2024 3 5) 30 (Finite 50),
      simple_call (mk_date 2024 3 6) 30 (Finite 50)] (fresh_manager Map.empty Map.empty)))) = 3"
  using three_days_consecutive(1)
    consecutive_days_streak [OF three_days_consecutive(1), of Map.empty Map.empty]
  by simp

text \<open>
  Claim C3. After a run of sessions on consecutive days, a call whose date is more than
  one whole day after the last workout date (at least one day was missed) sets the streak
  to exactly 1; and for every prior state and every single call, the best streak
  afterwards is at least the best streak before.
\<close>

theorem gap_resets_streak:
  "(consecutive_days (call_dates cs) \<and> cs \<noteq> [] \<and>
    1 < days_between (dt_date (call_now c)) (dt_date (call_now (last cs))) \<longrightarrow>
      streak (user_stats (data (record_session (record_sessions cs (fresh_manager exs wos)) c))) = 1) \<and>
   best_streak (user_stats (data dm)) \<le> best_streak (user_stats (data (record_session dm c)))"
proof (intro conjI impI)
  assume a: "consecutive_days (call_dates cs) \<and> cs \<noteq> [] \<and>
    1 < days_between (dt_date (call_now c)) (dt_date (call_now (last cs)))"
  then have "last_workout_date (user_stats (data (record_sessions cs (fresh_manager exs wos))))
           = Some (dt_date (call_now (last cs)))"
    using consecutive_run [of cs exs wos] by simp
  with a show "streak (user_stats (data (record_session (record_sessions cs (fresh_manager exs wos)) c))) = 1"
    by (simp add: record_session_gap)
next
  show "best_streak (user_stats (data dm)) \<le> best_streak (user_stats (data (record_session dm c)))"
    by (rule record_session_best_mono)
qed

theorem gap_resets_streak_witness:
  "(consecutive_days (call_dates
      [simple_call (mk_date 2024 3 4) 30 (Finite 50), simple_call (mk_date 2024 3 5) 30 (Finite 50)]) \<and>
    [simple_call (mk_date 2024 3 4) 30 (Finite 50), simple_call (mk_date 2024 3 5) 30 (Finite 50)] \<noteq> [] \<and>
    1 < days_between (dt_date (call_now (simple_call (mk_date 2024 3 7) 30 (Finite 50))))
          (dt_date (call_now (last
            [simple_call (mk_date 2024 3 4) 30 (Finite 50),
             simple_call (mk_date 2024 3 5) 30 (Finite 50)])))) \<and>
   streak (user_stats (data (record_session (record_sessions
     [simple_call (mk_date 2024 3 4) 30 (Finite 50), simple_call (mk_date 2024 3 5) 30 (Finite 50)]
     (fresh_manager Map.empty Map.empty)) (simple_call (mk_date 2024 3 7) 30 (Finite 50))))) = 1 \<and>
   best_streak (user_stats (data (manager_with_stats (Some (mk_date 2024 3 4)) 3 5)))
     \<le> best_streak (user_stats (data (record_session
          (manager_with_stats (Some (mk_date 2024 3 4)) 3 5)
          (simple_call (mk_date 2024 3 7) 30 (Finite 50)))))"
proof -
  have gap: "1 < days_between (dt_date (call_now (simple_call (mk_date 2024 3 7) 30 (Finite 50))))
          (dt_date (call_now (last
            [simple_call (mk_date 2024 3 4) 30 (Finite 50),
             simple_call (mk_date 2024 3 5) 30 (Finite 50)])))"
    by (simp add: simple_call_def midnight_def days_between_def toordinal_march_2024)
  show ?thesis
    using three_days_consecutive(2) gap
      gap_resets_streak [of
        "[simple_call (mk_date 2024 3 4) 30 (Finite 50), simple_call (mk_date 2024 3 5) 30 (Finite 50)]"
        "simple_call (mk_date 2024 3 7) 30 (Finite 50)" Map.empty Map.empty
        "manager_with_stats (Some (mk_date 2024 3 4)) 3 5"]
    by simp
qed


section \<open>Recording sessions: replaying the ledger\<close>

lemma round1_eighth: "round1 (Finite (1 / 8)) = Finite (1 / 10)"
proof -
  have "\<lfloor>5 / 4 :: rat\<rfloor> = 1"
    by (rule floor_unique) simp_all
  then show ?thesis
    by (simp add: round_half_even_def Let_def)
qed

lemma round1_half: "round1 (Finite (21 / 2)) = Finite (21 / 2)"
  by (simp add: round_half_even_def Let_def)

lemma record_session_history:
  "history (data (record_session dm c)) = history (data dm) @ [entry_of_call c]"
  by (simp add: record_session_def add_workout_to_history_def save_data_def Let_def
      entry_of_call_def)

lemma record_session_stats:
  "user_stats (data (record_session dm c)) =
     (spec_replay_entry (user_stats (data dm)) (entry_of_call c))
       \<lparr>total_calories := fadd (total_calories (user_stats (data dm))) (call_calories c)\<rparr>"
  by (simp add: record_session_def add_workout_to_history_def save_data_def Let_def
      entry_of_call_def spec_replay_entry_def max.commute split: option.splits)

lemma replay_entry_calories_irrelevant:
  "(spec_replay_entry (st\<lparr>total_calories := t\<rparr>) e)\<lparr>total_calories := u\<rparr>
     = (spec_replay_entry st e)\<lparr>total_calories := u\<rparr>"
  by (simp add: spec_replay_entry_def Let_def split: option.splits)

lemma replay_ledger_snoc: "spec_replay_ledger (es @ [e]) = spec_replay_entry (spec_replay_ledger es) e"
  by (simp add: spec_replay_ledger_def)

lemma replay_general:
  "history (data (record_sessions cs (fresh_manager exs wos))) = map entry_of_call cs \<and>
   user_stats (data (record_sessions cs (fresh_manager exs wos))) =
     (spec_replay_ledger (map entry_of_call cs))\<lparr>total_calories := sum_calories cs\<rparr>"
proof (induction cs rule: rev_induct)
  case Nil
  show ?case
    by (simp add: record_sessions_def fresh_manager_def default_data_def spec_replay_ledger_def
        sum_calories_def default_stats_def)
next
  case (snoc c cs)
  then show ?case
    by (simp add: record_sessions_snoc record_session_history record_session_stats
        replay_ledger_snoc replay_entry_calories_irrelevant sum_calories_def)
qed

lemma total_calories_replay_rounded:
  "\<forall>c \<in> set cs. round1 (call_calories c) = call_calories c \<Longrightarrow>
   total_calories (spec_replay_ledger (map entry_of_call cs)) = sum_calories cs"
proof (induction cs rule: rev_induct)
  case Nil
  show ?case by (simp add: spec_replay_ledger_def sum_calories_def default_stats_def)
next
  case (snoc c cs)
  then show ?case
    by (simp add: replay_ledger_snoc spec_replay_entry_def entry_of_call_def sum_calories_def Let_def)
qed

text \<open>
  Claim C7, as stated: after every sequence of calls the stored statistics equal the
  statistics obtained by replaying the stored records from the zeroed statistics. It fails
  for the cumulative calories: the record keeps \<^verbatim>\<open>round(calories_burned, 1)\<close> (line 138)
  while the total adds the unrounded amount (line 146). One call with 0.125 calories
  leaves a total of 0.125 and a record of 0.1.
\<close>

theorem replay_counterexample:
  "user_stats (data (record_sessions [simple_call (mk_date 2024 3 4) 1 (Finite (1 / 8))]
       (fresh_manager Map.empty Map.empty)))
   \<noteq> spec_replay_ledger (history (data (record_sessions
         [simple_call (mk_date 2024 3 4) 1 (Finite (1 / 8))]
         (fresh_manager Map.empty Map.empty))))"
proof -
  have a: "total_calories (user_stats (data (record_sessions
       [simple_call (mk_date 2024 3 4) 1 (Finite (1 / 8))]
       (fresh_manager Map.empty Map.empty)))) = Finite (1 / 8)"
    by (simp add: record_sessions_def record_session_def add_workout_to_history_def save_data_def
        Let_def fresh_manager_def default_data_def default_stats_def simple_call_def)
  have b: "total_calories (spec_replay_ledger (history (data (record_sessions
       [simple_call (mk_date 2024 3 4) 1 (Finite (1 / 8))]
       (fresh_manager Map.empty Map.empty))))) = Finite (1 / 10)"
    by (simp add: record_sessions_def record_session_def add_workout_to_history_def save_data_def
        Let_def fresh_manager_def default_data_def default_stats_def simple_call_def
        spec_replay_ledger_def spec_replay_entry_def round1_eighth del: round1.simps)
  show ?thesis using a b by auto
qed

text \<open>
  Claim C7, amended. After every sequence of calls from the default state, the session
  count, the cumulative minutes, the streak, the best streak and the last workout date
  equal those of the replay of the stored records, and the cumulative calories are the
  sum of the unrounded amounts passed to the calls; when every amount passed is already a
  value of one decimal, the stored statistics equal the replay in every field.
\<close>

theorem stats_replay:
  "user_stats (data (record_sessions cs (fresh_manager exs wos))) =
     (spec_replay_ledger (history (data (record_sessions cs (fresh_manager exs wos)))))
       \<lparr>total_calories := sum_calories cs\<rparr> \<and>
   ((\<forall>c \<in> set cs. round1 (call_calories c) = call_calories c) \<longrightarrow>
      user_stats (data (record_sessions cs (fresh_manager exs wos))) =
        spec_replay_ledger (history (data (record_sessions cs (fresh_manager exs wos)))))"
proof (intro conjI impI)
  show a: "user_stats (data (record_sessions cs (fresh_manager exs wos))) =
     (spec_replay_ledger (history (data (record_sessions cs (fresh_manager exs wos)))))
       \<lparr>total_calories := sum_calories cs\<rparr>"
    using replay_general [of cs exs wos] by simp
  assume r: "\<forall>c \<in> set cs. round1 (call_calories c) = call_calories c"
  have "total_calories (spec_replay_ledger (history (data (record_sessions cs (fresh_manager exs wos)))))
          = sum_calories cs"
    using total_calories_replay_rounded [OF r] replay_general [of cs exs wos] by simp
  then have "(spec_replay_ledger (history (data (record_sessions cs (fresh_manager exs wos)))))
       \<lparr>total_calories := sum_calories cs\<rparr>
       = spec_replay_ledger (history (data (record_sessions cs (fresh_manager exs wos))))"
    by (metis user_stats.surjective user_stats.update_convs(2))
  with a show "user_stats (data (record_sessions cs (fresh_manager exs wos))) =
        spec_replay_ledger (history (data (record_sessions cs (fresh_manager exs wos))))"
    by simp
qed

theorem stats_replay_witness:
  "round1 (call_calories (simple_call (mk_date 2024 3 4) 30 (Finite (21 / 2))))
     = call_calories (simple_call (mk_date 2024 3 4) 30 (Finite (21 / 2))) \<and>
   round1 (call_calories (simple_call (mk_date 2024 3 5) 20 (Finite (21 / 2))))
     = call_calories (simple_call (mk_date 2024 3 5) 20 (Finite (21 / 2))) \<and>
   user_stats (data (record_sessions
     [simple_call (mk_date 2024 3 4) 30 (Finite (21 / 2)),
      simple_call (mk_date 2024 3 5) 20 (Finite (21 / 2))] (fresh_manager Map.empty Map.empty))) =
     spec_replay_ledger (history (data (record_sessions
       [simple_call (mk_date 2024 3 4) 30 (Finite (21 / 2)),
        simple_call (mk_date 2024 3 5) 20 (Finite (21 / 2))] (fresh_manager Map.empty Map.empty))))"
proof -
  have r: "round1 (call_calories (simple_call d m (Finite (21 / 2))))
      = call_calories (simple_call d m (Finite (21 / 2)))" for d m
    by (simp add: simple_call_def round1_half del: round1.simps)
  have h: "\<forall>c \<in> set [simple_call (mk_date 2024 3 4) 30 (Finite (21 / 2)),
        simple_call (mk_date 2024 3 5) 20 (Finite (21 / 2))].
      round1 (call_calories c) = call_calories c"
    using r by simp
  have c: "user_stats (data (record_sessions
     [simple_call (mk_date 2024 3 4) 30 (Finite (21 / 2)),
      simple_call (mk_date 2024 3 5) 20 (Finite (21 / 2))] (fresh_manager Map.empty Map.empty))) =
     spec_replay_ledger (history (data (record_sessions
       [simple_call (mk_date 2024 3 4) 30 (Finite (21 / 2)),
        simple_call (mk_date 2024 3 5) 20 (Finite (21 / 2))] (fresh_manager Map.empty Map.empty))))"
    using h stats_replay [of "[simple_call (mk_date 2024 3 4) 30 (Finite (21 / 2)),
        simple_call (mk_date 2024 3 5) 20 (Finite (21 / 2))]" Map.empty Map.empty]
    by blast
  show ?thesis
    by (intro conjI r c)
qed


section \<open>Weekly statistics\<close>

lemma weekly_loop_old:
  "toordinal (date e) < ws \<Longrightarrow> weekly_loop ws (e # es) acc = weekly_loop ws es acc"
  by (cases acc) (simp add: Let_def)

text \<open>
  Records dated before the Monday of the week contribute nothing: the loop gives the
  same result on the history with those records removed.
\<close>

lemma weekly_loop_filter:
  "weekly_loop ws es acc = weekly_loop ws (filter (\<lambda>e. ws \<le> toordinal (date e)) es) acc"
proof (induction es arbitrary: acc)
  case Nil
  show ?case by simp
next
  case (Cons e es)
  obtain a b c d where acc: "acc = (a, b, c, d)" by (cases acc) auto
  show ?case
  proof (cases "ws \<le> toordinal (date e)")
    case True
    then show ?thesis
      using Cons.IH by (simp add: acc Let_def)
  next
    case False
    then show ?thesis
      using Cons.IH [of acc] by (simp add: acc)
  qed
qed

lemma weekly_loop_none:
  "\<forall>e \<in> set es. toordinal (date e) < ws \<Longrightarrow> weekly_loop ws es acc = acc"
  by (induction es) (simp_all add: weekly_loop_old)

text \<open>
  The goal progress is the session count divided by \<open>max(weekly goal, 1)\<close>, times 100, for
  every history and every goal; and a history with no record dated on or after the
  Monday of the week gives zero sessions, zero progress and seven empty buckets.
\<close>

lemma goal_progress_formula:
  "goal_progress (get_weekly_stats today dm) =
     of_int (wk_workouts (get_weekly_stats today dm))
       / of_int (max (weekly_workouts (goals (data dm))) 1) * 100"
  by (simp add: get_weekly_stats_def split: prod.splits)

lemma weekly_zero:
  "\<forall>e \<in> set (history (data dm)). toordinal (date e) < week_start today \<Longrightarrow>
   wk_workouts (get_weekly_stats today dm) = 0 \<and>
   goal_progress (get_weekly_stats today dm) = 0 \<and>
   daily_breakdown (get_weekly_stats today dm) = replicate 7 0"
  by (simp add: get_weekly_stats_def weekly_loop_none)

text \<open>
  Claim C5: \<^verbatim>\<open>get_weekly_stats\<close> aggregates exactly the records dated within the current
  week, Monday up to the next Monday, and a record dated outside it, earlier or later,
  contributes nothing. The test of line 180 has the lower bound only. Evaluated on
  Wednesday 2024-03-06 with a history of one record dated Tuesday 2024-03-12, which is
  outside the week of 2024-03-04: the record is counted, in the Tuesday bucket, where the
  empty history gives zeros.
\<close>

theorem weekly_future_record:
  "\<not> spec_current_week (midnight (mk_date 2024 3 6)) (simple_entry (mk_date 2024 3 12) 30 (Finite 50)) \<and>
   get_weekly_stats (midnight (mk_date 2024 3 6))
     (manager_with [simple_entry (mk_date 2024 3 12) 30 (Finite 50)] 3)
   = \<lparr>wk_workouts = 1, wk_calories = Finite 50, wk_minutes = 30,
      daily_breakdown = [0, 1, 0, 0, 0, 0, 0], goal_progress = 100 / 3\<rparr> \<and>
   get_weekly_stats (midnight (mk_date 2024 3 6)) (manager_with [] 3)
   = \<lparr>wk_workouts = 0, wk_calories = Finite 0, wk_minutes = 0,
      daily_breakdown = [0, 0, 0, 0, 0, 0, 0], goal_progress = 0\<rparr>"
  by (simp add: spec_current_week_def get_weekly_stats_def week_start_def weekday_def midnight_def
      simple_entry_def manager_with_def default_data_def toordinal_march_2024 Let_def
      round_half_even_def numeral_eq_Suc)

text \<open>
  Claim C6: the goal progress is the session count over \<open>max(weekly goal, 1)\<close> times 100,
  and over a week containing zero sessions the result has zero workouts, zero progress
  and seven empty buckets, also with a weekly goal of 0. Evaluated on Sunday 2024-03-10
  with a weekly goal of 0 and a history of one record dated Monday 2024-03-11: the week
  of 2024-03-04 contains no session, and the result has one workout, a progress of 100
  and a Monday bucket of 1.
\<close>

theorem weekly_zero_future_record:
  "\<not> spec_current_week (midnight (mk_date 2024 3 10)) (simple_entry (mk_date 2024 3 11) 30 (Finite 50)) \<and>
   get_weekly_stats (midnight (mk_date 2024 3 10))
     (manager_with [simple_entry (mk_date 2024 3 11) 30 (Finite 50)] 0)
   = \<lparr>wk_workouts = 1, wk_calories = Finite 50, wk_minutes = 30,
      daily_breakdown = [1, 0, 0, 0, 0, 0, 0], goal_progress = 100\<rparr>"
  by (simp add: spec_current_week_def get_weekly_stats_def week_start_def weekday_def midnight_def
      simple_entry_def manager_with_def default_data_def toordinal_march_2024 Let_def
      round_half_even_def numeral_eq_Suc)


section \<open>The countdown timer\<close>

lemma steps_Suc:
  "foldl perform s (replicate (Suc k) a) = foldl perform (perform s a) (replicate k a)"
  by simp

lemma steps_add:
  "foldl perform s (replicate (j + k) a) = foldl perform (foldl perform s (replicate j a)) (replicate k a)"
  by (simp add: replicate_add)

lemma stopped_quiet_step:
  assumes "stopped_quiet i t"
  shows "\<exists>t'. perform (t, cbs) (Step i) = (t', cbs) \<and> stopped_quiet i t' \<and>
           place_rank (threads t' ! i) = place_rank (threads t ! i) - 1"
  using assms
  by (cases "threads t ! i") (simp_all add: stopped_quiet_def thread_step_def)

lemma stopped_quiet_steps:
  assumes "stopped_quiet i t"
  shows "\<exists>t'. foldl perform (t, cbs) (replicate k (Step i)) = (t', cbs) \<and> stopped_quiet i t' \<and>
           place_rank (threads t' ! i) = place_rank (threads t ! i) - k"
  using assms
proof (induction k arbitrary: t)
  case 0
  then show ?case by simp
next
  case (Suc k)
  from stopped_quiet_step [OF Suc.prems, of cbs] obtain t1 where
    t1: "perform (t, cbs) (Step i) = (t1, cbs)" "stopped_quiet i t1"
      "place_rank (threads t1 ! i) = place_rank (threads t ! i) - 1"
    by blast
  from Suc.IH [OF t1(2)] obtain t2 where
    t2: "foldl perform (t1, cbs) (replicate k (Step i)) = (t2, cbs)" "stopped_quiet i t2"
      "place_rank (threads t2 ! i) = place_rank (threads t1 ! i) - k"
    by blast
  show ?case
    using t1 t2 by (simp add: steps_Suc del: replicate.simps)
qed

lemma quiet_rank_le: "quiet_place l \<Longrightarrow> place_rank l \<le> 5"
  by (cases l) simp_all

lemma rank_zero: "place_rank l = 0 \<Longrightarrow> l = Finished"
  by (cases l) simp_all

lemma stop_quiet:
  assumes "i < length (threads t)" and "quiet_place (threads t ! i)" and "5 \<le> k"
  shows "\<exists>t'. foldl perform (t, cbs) (Stop # replicate k (Step i)) = (t', cbs) \<and>
           threads t' ! i = Finished"
proof -
  have sq: "stopped_quiet i (stop t)"
    using assms by (simp add: stopped_quiet_def stop_def)
  from stopped_quiet_steps [OF sq, of cbs k] obtain t' where
    t': "foldl perform (stop t, cbs) (replicate k (Step i)) = (t', cbs)"
      "place_rank (threads t' ! i) = place_rank (threads (stop t) ! i) - k"
    by blast
  have "place_rank (threads (stop t) ! i) \<le> 5"
    using assms(2) by (simp add: stop_def quiet_rank_le)
  with t'(2) assms(3) have "place_rank (threads t' ! i) = 0" by simp
  then have "threads t' ! i = Finished" by (rule rank_zero)
  with t'(1) show ?thesis by simp
qed

lemma ticks_Suc: "ticks (Suc n) = (int n, True) # ticks n"
  by (simp add: ticks_def)

lemma timer_one_tick:
  assumes "threads t = [AtWhile]" "running t" "\<not> paused t" "seconds_remaining t = int (Suc n)"
  shows "foldl perform (t, cbs) (replicate 6 (Step 0))
           = (t\<lparr>seconds_remaining := int n\<rparr>, cbs @ [(int n, True)])"
  using assms by (simp add: numeral_eq_Suc thread_step_def)

lemma last_steps:
  assumes "threads t = [AtWhile]" "running t" "seconds_remaining t \<le> 0"
  shows "foldl perform (t, cbs) (replicate 4 (Step 0))
           = (t\<lparr>running := False, threads := [Finished]\<rparr>, cbs @ [(0, False)])"
  using assms by (simp add: numeral_eq_Suc thread_step_def)

lemma countdown:
  assumes "threads t = [AtWhile]" "running t" "\<not> paused t" "seconds_remaining t = int n"
  shows "foldl perform (t, cbs) (replicate (6 * n + 4) (Step 0))
           = (t\<lparr>seconds_remaining := 0, running := False, threads := [Finished]\<rparr>,
              cbs @ ticks n @ [(0, False)])"
  using assms
proof (induction n arbitrary: t cbs)
  case 0
  then show ?case
    using last_steps [of t cbs] by (simp add: ticks_def)
next
  case (Suc n)
  have split: "6 * Suc n + 4 = 6 + (6 * n + 4)" by simp
  let ?t = "t\<lparr>seconds_remaining := int n\<rparr>"
  have "foldl perform (t, cbs) (replicate (6 * Suc n + 4) (Step 0))
          = foldl perform (?t, cbs @ [(int n, True)]) (replicate (6 * n + 4) (Step 0))"
    unfolding split steps_add using timer_one_tick [OF Suc.prems] by simp
  also have "\<dots> = (?t\<lparr>seconds_remaining := 0, running := False, threads := [Finished]\<rparr>,
              (cbs @ [(int n, True)]) @ ticks n @ [(0, False)])"
    using Suc.prems by (intro Suc.IH) simp_all
  finally show ?case by (simp add: ticks_Suc)
qed

lemma finished_step: "threads t = [Finished] \<Longrightarrow> thread_step 0 t = (t, None)"
  by (cases t) (simp add: thread_step_def)

lemma finished_steps:
  "threads t = [Finished] \<Longrightarrow> foldl perform (t, cbs) (replicate k (Step 0)) = (t, cbs)"
  by (induction k) (simp_all add: finished_step)

lemma terminal_ticks: "terminal_callbacks (ticks n @ [(0, False)]) = 1"
  by (simp add: terminal_callbacks_def ticks_def filter_empty_conv)

lemma natural_end:
  assumes "6 * nat s + 4 \<le> k"
  shows "\<exists>t. run_schedule (Start s # replicate k (Step 0)) = (t, ticks (nat s) @ [(0, False)]) \<and>
           threads t = [Finished]"
proof -
  obtain j where k: "k = (6 * nat s + 4) + j"
    using assms by (metis le_Suc_ex)
  let ?t0 = "start s new_timer"
  have "\<exists>t. foldl perform (?t0, []) (replicate (6 * nat s + 4) (Step 0))
          = (t, ticks (nat s) @ [(0, False)]) \<and> threads t = [Finished]"
  proof (cases "0 \<le> s")
    case True
    have "foldl perform (?t0, []) (replicate (6 * nat s + 4) (Step 0))
          = (?t0\<lparr>seconds_remaining := 0, running := False, threads := [Finished]\<rparr>,
             [] @ ticks (nat s) @ [(0, False)])"
      using True by (intro countdown) (simp_all add: start_def new_timer_def)
    then show ?thesis by simp
  next
    case False
    then have n: "nat s = 0" by simp
    have "foldl perform (?t0, []) (replicate 4 (Step 0))
          = (?t0\<lparr>running := False, threads := [Finished]\<rparr>, [] @ [(0, False)])"
      using False by (intro last_steps) (simp_all add: start_def new_timer_def)
    then show ?thesis by (simp add: n ticks_def)
  qed
  then obtain t1 where t1: "foldl perform (?t0, []) (replicate (6 * nat s + 4) (Step 0))
          = (t1, ticks (nat s) @ [(0, False)])" "threads t1 = [Finished]"
    by blast
  have "run_schedule (Start s # replicate k (Step 0))
          = foldl perform (foldl perform (?t0, []) (replicate (6 * nat s + 4) (Step 0)))
              (replicate j (Step 0))"
    by (simp add: run_schedule_def k replicate_add)
  also have "\<dots> = (t1, ticks (nat s) @ [(0, False)])"
    using t1 by (simp add: finished_steps)
  finally show ?thesis using t1(2) by blast
qed

lemma countdown_inv_step:
  assumes "countdown_inv (t, cbs)"
  shows "countdown_inv (perform (t, cbs) (Step i))"
proof (cases "i = 0")
  case True
  from assms obtain l where l: "threads t = [l]"
    by (cases "threads t") (auto simp: countdown_inv_def)
  show ?thesis
    using assms l True
    by (cases l) (auto simp: countdown_inv_def thread_step_def terminal_callbacks_def)
next
  case False
  then show ?thesis
    using assms by (simp add: countdown_inv_def thread_step_def)
qed

lemma countdown_inv_perform:
  assumes "countdown_inv s" and "undisturbed a"
  shows "countdown_inv (perform s a)"
proof -
  obtain t cbs where s: "s = (t, cbs)" by (cases s)
  show ?thesis
  proof (cases a)
    case (Step i)
    then show ?thesis using assms(1) countdown_inv_step s by simp
  qed (use assms s in \<open>simp_all add: countdown_inv_def pause_def resume_def\<close>)
qed

lemma countdown_inv_schedule:
  assumes "countdown_inv s" and "list_all undisturbed as"
  shows "countdown_inv (foldl perform s as)"
  using assms
  by (induction as arbitrary: s) (simp_all add: countdown_inv_perform)

lemma countdown_inv_start: "countdown_inv (start s new_timer, [])"
  by (simp add: countdown_inv_def start_def new_timer_def terminal_callbacks_def)

lemma undisturbed_countdown:
  assumes "list_all undisturbed as"
  shows "case run_schedule (Start s # as) of
           (t, cbs) \<Rightarrow> terminal_callbacks cbs = (if threads t = [Finished] then 1 else 0)"
proof -
  have "countdown_inv (foldl perform (start s new_timer, []) as)"
    using countdown_inv_start assms by (rule countdown_inv_schedule)
  then show ?thesis
    by (auto simp: run_schedule_def countdown_inv_def split: prod.splits)
      (metis length_Suc_conv length_0_conv nth_Cons_0 One_nat_def)+
qed

text \<open>
  Claim C9, as stated: every started countdown delivers the terminal callback
  \<^verbatim>\<open>(0, False)\<close> exactly once, also when \<^verbatim>\<open>stop()\<close> is called before it reaches zero. It
  fails for \<^verbatim>\<open>stop()\<close>, which only clears \<^verbatim>\<open>running\<close> (line 239): the thread then leaves its
  loop and skips lines 226 and 227. A countdown of 5 seconds stopped during its first
  sleep ends without any callback.
\<close>

theorem stop_counterexample:
  "run_schedule [Start 5, Step 0, Step 0, Stop, Step 0, Step 0, Step 0, Step 0]
     = (\<lparr>running = False, paused = False, seconds_remaining = 5, threads = [Finished]\<rparr>, []) \<and>
   terminal_callbacks (snd (run_schedule [Start 5, Step 0, Step 0, Stop, Step 0, Step 0, Step 0, Step 0])) \<noteq> 1"
  by (simp add: run_schedule_def new_timer_def start_def stop_def thread_step_def
      terminal_callbacks_def)

text \<open>
  Claim C9, amended. A started countdown that is not stopped, whatever the pauses and
  resumes, delivers the terminal callback \<^verbatim>\<open>(0, False)\<close> exactly once when its thread has
  finished and not before; left alone it finishes, the terminal callback being its last
  callback. A \<^verbatim>\<open>stop()\<close> that comes while the thread is sleeping or at one of its tests
  (anywhere but between the test of line 219 and the call of line 221, or after the test
  of line 225) ends the thread with no further callback at all; the callers of
  \<^verbatim>\<open>stop()\<close> advance the session themselves (lines 746 and 752).
\<close>

theorem terminal_callback_amended:
  "(list_all undisturbed as \<longrightarrow>
      (case run_schedule (Start s # as) of
         (t, cbs) \<Rightarrow> terminal_callbacks cbs = (if threads t = [Finished] then 1 else 0))) \<and>
   (6 * nat s + 4 \<le> k \<longrightarrow>
      (case run_schedule (Start s # replicate k (Step 0)) of
         (t, cbs) \<Rightarrow> threads t = [Finished] \<and> terminal_callbacks cbs = 1 \<and> last cbs = (0, False))) \<and>
   (i < length (threads t) \<and> quiet_place (threads t ! i) \<and> 5 \<le> j \<longrightarrow>
      (case foldl perform (t, cbs) (Stop # replicate j (Step i)) of
         (t', cbs') \<Rightarrow> threads t' ! i = Finished \<and> cbs' = cbs))"
proof (intro conjI impI)
  assume "list_all undisturbed as"
  then show "case run_schedule (Start s # as) of
         (t, cbs) \<Rightarrow> terminal_callbacks cbs = (if threads t = [Finished] then 1 else 0)"
    by (rule undisturbed_countdown)
next
  assume "6 * nat s + 4 \<le> k"
  from natural_end [OF this] show
    "case run_schedule (Start s # replicate k (Step 0)) of
         (t, cbs) \<Rightarrow> threads t = [Finished] \<and> terminal_callbacks cbs = 1 \<and> last cbs = (0, False)"
    by (auto simp: terminal_ticks)
next
  assume "i < length (threads t) \<and> quiet_place (threads t ! i) \<and> 5 \<le> j"
  then show "case foldl perform (t, cbs) (Stop # replicate j (Step i)) of
         (t', cbs') \<Rightarrow> threads t' ! i = Finished \<and> cbs' = cbs"
    using stop_quiet [of i t j cbs] by auto
qed

theorem terminal_callback_amended_witness:
  "list_all undisturbed [Step 0, Pause, Step 0, Resume, Step 0] \<and>
   (case run_schedule (Start 2 # [Step 0, Pause, Step 0, Resume, Step 0]) of
      (t, cbs) \<Rightarrow> terminal_callbacks cbs = (if threads t = [Finished] then 1 else 0)) \<and>
   6 * nat 2 + 4 \<le> (16::nat) \<and>
   (case run_schedule (Start 2 # replicate 16 (Step 0)) of
      (t, cbs) \<Rightarrow> threads t = [Finished] \<and> terminal_callbacks cbs = 1 \<and> last cbs = (0, False)) \<and>
   (0 < length (threads sleeping_timer) \<and> quiet_place (threads sleeping_timer ! 0) \<and> (5::nat) \<le> 5) \<and>
   (case foldl perform (sleeping_timer, []) (Stop # replicate 5 (Step 0)) of
      (t', cbs') \<Rightarrow> threads t' ! 0 = Finished \<and> cbs' = [])"
proof -
  have h: "0 < length (threads sleeping_timer) \<and> quiet_place (threads sleeping_timer ! 0) \<and> (5::nat) \<le> 5"
    by (simp add: sleeping_timer_def)
  have u: "list_all undisturbed [Step 0, Pause, Step 0, Resume, Step 0]"
    by simp
  have k: "6 * nat 2 + 4 \<le> (16::nat)"
    by simp
  show ?thesis
    using h u k
      terminal_callback_amended [where as = "[Step 0, Pause, Step 0, Resume, Step 0]" and s = 2
        and k = 16 and i = 0 and t = sleeping_timer and j = 5 and cbs = "[]"]
    by (simp only: simp_thms)
qed


section \<open>Adding an exercise\<close>

lemma py_float_samples:
  "py_float ''abc'' = None"
  "py_float ''-1'' = Some (Finite (- 1))"
  "py_float ''0.5'' = Some (Finite (1 / 2))"
  by (simp_all add: py_float_def parse_unsigned_def parse_decimal_def parse_exponent_def
      is_digit_def same_letter_def float_space_def scale10_def digits_value_def digit_value_def)

lemma strip_samples:
  "strip ''A'' = ''A''" "strip ''B'' = ''B''" "strip '' A '' = ''A''" "strip ''  '' = []"
  by (simp_all add: strip_def py_isspace_def)

lemma add_exercise_rejected:
  assumes "py_float cal = None \<or> strip n = [] \<or> strip c = []"
  shows "data_manager (add_exercise n c cal st) = data_manager st \<and>
         (messages (add_exercise n c cal st) = messages st @ [ErrorInvalidCalories] \<or>
          messages (add_exercise n c cal st) = messages st @ [ErrorFillAllFields])"
  using assms by (auto simp: add_exercise_def Let_def split: option.splits)

lemma add_exercise_stored:
  assumes "py_float cal = Some v" and "strip n \<noteq> []" and "strip c \<noteq> []"
  shows "data (data_manager (add_exercise n c cal st)) =
           (data (data_manager st))
             \<lparr>exercises := (exercises (data (data_manager st)))
                (strip n \<mapsto> \<lparr>category = strip c, calories_per_rep = v, icon = default_icon\<rparr>)\<rparr> \<and>
         messages (add_exercise n c cal st) = messages st @ [InfoExerciseAdded (strip n)]"
  using assms by (simp add: add_exercise_def Let_def save_data_def)

text \<open>
  Claim C8, as stated: \<^verbatim>\<open>_add_exercise\<close> fails and leaves the exercise table unchanged
  whenever the calories text is not parseable as a non-negative number. The source only
  asks that \<^verbatim>\<open>float()\<close> accepts the text (lines 792 to 796) and has no test of the sign:
  the text \<^verbatim>\<open>-1\<close> is a number below zero, and the exercise is stored with it.
\<close>

theorem negative_calories_counterexample:
  "py_float ''-1'' = Some (Finite (- 1)) \<and> \<not> non_negative (Finite (- 1)) \<and>
   exercises (data (data_manager empty_app)) ''A'' = None \<and>
   exercises (data (data_manager (add_exercise ''A'' ''B'' ''-1'' empty_app))) ''A''
     = Some \<lparr>category = ''B'', calories_per_rep = Finite (- 1), icon = default_icon\<rparr> \<and>
   messages (add_exercise ''A'' ''B'' ''-1'' empty_app) = [InfoExerciseAdded ''A'']"
  using add_exercise_stored [OF py_float_samples(2), of "''A''" "''B''" empty_app]
  by (simp add: py_float_samples strip_samples empty_app_def new_app_def fresh_manager_def
      default_data_def)

text \<open>
  Claim C8, amended. \<^verbatim>\<open>_add_exercise\<close> shows an error box and leaves the DataManager (the
  exercise table included) unchanged whenever \<^verbatim>\<open>float()\<close> rejects the calories text (as it
  does for \<^verbatim>\<open>abc\<close>) or the name or the category is empty after stripping white space;
  otherwise, whatever the sign of the number, it stores the exercise under the stripped
  name, replacing any entry of that name, and changes nothing else of the document.
\<close>

theorem add_exercise_validation:
  "(py_float cal = None \<or> strip n = [] \<or> strip c = [] \<longrightarrow>
      data_manager (add_exercise n c cal st) = data_manager st \<and>
      (messages (add_exercise n c cal st) = messages st @ [ErrorInvalidCalories] \<or>
       messages (add_exercise n c cal st) = messages st @ [ErrorFillAllFields])) \<and>
   (py_float cal = Some v \<and> strip n \<noteq> [] \<and> strip c \<noteq> [] \<longrightarrow>
      data (data_manager (add_exercise n c cal st)) =
        (data (data_manager st))
          \<lparr>exercises := (exercises (data (data_manager st)))
             (strip n \<mapsto> \<lparr>category = strip c, calories_per_rep = v, icon = default_icon\<rparr>)\<rparr> \<and>
      messages (add_exercise n c cal st) = messages st @ [InfoExerciseAdded (strip n)]) \<and>
   py_float ''abc'' = None"
  using add_exercise_rejected [of cal n c st] add_exercise_stored [of cal v n c st]
  by (simp add: py_float_samples)

theorem add_exercise_validation_witness:
  "(py_float ''abc'' = None \<or> strip ''A'' = [] \<or> strip ''B'' = []) \<and>
   data_manager (add_exercise ''A'' ''B'' ''abc'' empty_app) = data_manager empty_app \<and>
   (py_float ''0.5'' = Some (Finite (1 / 2)) \<and> strip '' A '' \<noteq> [] \<and> strip ''B'' \<noteq> []) \<and>
   data (data_manager (add_exercise '' A '' ''B'' ''0.5'' empty_app)) =
     (data (data_manager empty_app))
       \<lparr>exercises := (exercises (data (data_manager empty_app)))
          (''A'' \<mapsto> \<lparr>category = ''B'', calories_per_rep = Finite (1 / 2), icon = default_icon\<rparr>)\<rparr> \<and>
   messages (add_exercise '' A '' ''B'' ''0.5'' empty_app) = messages empty_app @ [InfoExerciseAdded ''A'']"
  using add_exercise_validation [of "''abc''" "''A''" "''B''" empty_app "Finite 0"]
    add_exercise_validation [of "''0.5''" "'' A ''" "''B''" empty_app "Finite (1 / 2)"]
  by (simp add: py_float_samples strip_samples)


section \<open>The session\<close>

lemma next_exercise_present:
  assumes "current_workout st = Some w"
    and "current_exercise_index st < length (workout_exercises w)"
    and "current_set st \<le> sets (workout_exercises w ! current_exercise_index st)"
  shows "next_exercise st =
     (let current = workout_exercises w ! current_exercise_index st;
          exercise_data = exercises (data (data_manager st)) (name current)
      in st\<lparr>status_texts := status_texts st @
                [StatusSet (case exercise_data of Some x \<Rightarrow> icon x | None \<Rightarrow> default_icon)
                   (name current) (current_set st) (sets current) (reps current)],
            session_calories := fadd (session_calories st)
               (fmul (case exercise_data of Some x \<Rightarrow> calories_per_rep x | None \<Rightarrow> Finite (1 / 2))
                  (of_pyint (reps current))),
            timer_label := Go,
            events := events st @ [StartRest (rest current)]\<rparr>)"
  using assms by (subst next_exercise.simps) (simp add: Let_def)

lemma next_exercise_advance:
  assumes "current_workout st = Some w"
    and "current_exercise_index st < length (workout_exercises w)"
    and "sets (workout_exercises w ! current_exercise_index st) < current_set st"
  shows "next_exercise st =
     next_exercise (st\<lparr>current_exercise_index := current_exercise_index st + 1, current_set := 1\<rparr>)"
  using assms by (subst next_exercise.simps) (simp add: Let_def)

lemma next_exercise_done:
  assumes "current_workout st = Some w"
    and "length (workout_exercises w) \<le> current_exercise_index st"
  shows "next_exercise st = complete_workout st"
  using assms by (subst next_exercise.simps) simp

lemma next_exercise_idle:
  assumes "current_workout st = None"
  shows "next_exercise st = st"
  using assms by (subst next_exercise.simps) simp

text \<open>
  Claim C10. When the step to present names an exercise that is absent from the exercise
  table, \<^verbatim>\<open>_next_exercise\<close> still presents the set (with the default icon) and queues the
  rest, and it credits 0.5 calories per repetition, that is 0.5 times the step's
  repetitions, to the session's calories; it neither fails nor credits zero.
\<close>

theorem absent_exercise_default:
  assumes "current_workout st = Some w"
    and "current_exercise_index st < length (workout_exercises w)"
    and "current_set st \<le> sets (workout_exercises w ! current_exercise_index st)"
    and "exercises (data (data_manager st)) (name (workout_exercises w ! current_exercise_index st)) = None"
  shows "session_calories (next_exercise st) =
           fadd (session_calories st)
             (Finite (1 / 2 * of_int (reps (workout_exercises w ! current_exercise_index st)))) \<and>
         status_texts (next_exercise st) = status_texts st @
           [StatusSet default_icon (name (workout_exercises w ! current_exercise_index st))
              (current_set st) (sets (workout_exercises w ! current_exercise_index st))
              (reps (workout_exercises w ! current_exercise_index st))] \<and>
         events (next_exercise st) = events st @
           [StartRest (rest (workout_exercises w ! current_exercise_index st))] \<and>
         data_manager (next_exercise st) = data_manager st"
  using assms by (simp add: next_exercise_present Let_def of_pyint_def)

theorem absent_exercise_default_witness:
  "current_workout presenting_app = Some (workout_A ''one step'') \<and>
   current_exercise_index presenting_app < length (workout_exercises (workout_A ''one step'')) \<and>
   current_set presenting_app
     \<le> sets (workout_exercises (workout_A ''one step'') ! current_exercise_index presenting_app) \<and>
   exercises (data (data_manager presenting_app))
     (name (workout_exercises (workout_A ''one step'') ! current_exercise_index presenting_app)) = None \<and>
   session_calories (next_exercise presenting_app) = Finite 5 \<and>
   status_texts (next_exercise presenting_app) = [StatusSet default_icon ''A'' 1 2 10] \<and>
   events (next_exercise presenting_app) = [StartRest 5]"
proof -
  have h: "current_workout presenting_app = Some (workout_A ''one step'')"
    "current_exercise_index presenting_app < length (workout_exercises (workout_A ''one step''))"
    "current_set presenting_app
       \<le> sets (workout_exercises (workout_A ''one step'') ! current_exercise_index presenting_app)"
    "exercises (data (data_manager presenting_app))
       (name (workout_exercises (workout_A ''one step'') ! current_exercise_index presenting_app)) = None"
    by (simp_all add: presenting_app_def new_app_def workout_A_def step_A_def fresh_manager_def
        default_data_def)
  have v: "workout_exercises (workout_A ''one step'') ! current_exercise_index presenting_app = step_A"
    "session_calories presenting_app = Finite 0" "status_texts presenting_app = []"
    "events presenting_app = []" "current_set presenting_app = 1"
    by (simp_all add: presenting_app_def new_app_def workout_A_def)
  show ?thesis
    using h absent_exercise_default [OF h]
    by (simp add: v step_A_def)
qed

subsection \<open>A session left to itself\<close>

lemma run_unattended_more:
  "run_unattended n st = Some r \<Longrightarrow> run_unattended (n + k) st = Some r"
proof (induction n arbitrary: st)
  case 0
  then show ?case by simp
next
  case (Suc n)
  then show ?case
    by (auto split: list.splits option.splits)
qed

lemma start_A:
  assumes "wn \<noteq> []" and "workouts (data dm) wn = Some (workout_A desc)"
  shows "start_workout (selected wn dm clk) = Inr (started_A wn desc dm clk)"
  using assms
  by (simp add: start_workout_def selected_def new_app_def next_exercise_present workout_A_def
      step_A_def Let_def calories_per_rep_of_def icon_of_def of_pyint_def started_A_def)

lemma first_live_finished: "first_live (replicate m Finished @ ls) = map_option (\<lambda>i. m + i) (first_live ls)"
  by (induction m) (simp_all add: option.map_comp comp_def option.map_ident)

lemma first_live_last: "l \<noteq> Finished \<Longrightarrow> first_live (replicate m Finished @ [l]) = Some m"
  by (simp add: first_live_finished)

lemma first_live_none: "first_live (replicate m Finished) = None"
  using first_live_finished [of m "[]"] by simp

lemma thread_step_last:
  "threads t = replicate m Finished @ [l] \<Longrightarrow>
   thread_step m t =
     (case run_statement l t of
        (l', t', cb) \<Rightarrow> (t'\<lparr>threads := (threads t')[m := l']\<rparr>, cb))"
  by (simp add: thread_step_def nth_append)

lemma unattended_thread:
  assumes "l \<noteq> Finished"
  shows "run_unattended (Suc k) (counting m l s r [] st) =
         run_unattended k (app_thread_step m (counting m l s r [] st))"
  using assms by (simp add: counting_def first_live_last)

lemma unattended_event:
  "run_unattended (Suc k) (counting m l s r (e # es) st) =
   run_unattended k (handle e (counting m l s r es st))"
  by (simp add: counting_def)

lemma upd_last: "(replicate m Finished @ [l])[m := l'] = replicate m Finished @ [l']"
  by (simp add: list_update_append)

lemma app_steps:
  "0 < s \<Longrightarrow> app_thread_step m (counting m AtWhile s True [] st) = counting m AtIfPaused s True [] st"
  "s \<le> 0 \<Longrightarrow> app_thread_step m (counting m AtWhile s True [] st) = counting m AtIfRunning s True [] st"
  "app_thread_step m (counting m AtIfPaused s True [] st) = counting m AtSleep s True [] st"
  "app_thread_step m (counting m AtSleep s True [] st) = counting m AtRecheck s True [] st"
  "app_thread_step m (counting m AtRecheck s True [] st) = counting m AtDecrement s True [] st"
  "app_thread_step m (counting m AtDecrement s True [] st) = counting m AtCallback (s - 1) True [] st"
  "app_thread_step m (counting m AtCallback s True [] st) = counting m AtWhile s True [Update s True] st"
  "app_thread_step m (counting m AtIfRunning s True [] st) = counting m AtSetRunning s True [] st"
  "app_thread_step m (counting m AtSetRunning s True [] st) = counting m AtFinalCallback s False [] st"
  "app_thread_step m (counting m AtFinalCallback s False [] st) = counting m Finished s False [Update 0 False] st"
  by (simp_all add: app_thread_step_def counting_def thread_step_last upd_last timer_callback_def)

lemma update_running:
  "update a True (counting m l s r es st) =
     counting m l s r es (st\<lparr>timer_label := Clock (a div 60) (a mod 60)\<rparr>)"
  by (simp add: update_def counting_def)

lemma update_stopped:
  "update 0 False (counting m l s r es st) =
     next_exercise ((counting m l s r es st)\<lparr>timer_label := Clock 0 0\<rparr>)"
  by (simp add: update_def)

lemma app_one_tick:
  assumes "0 < s"
  shows "run_unattended (7 + k) (counting m AtWhile s True [] st) =
         run_unattended k (counting m AtWhile (s - 1) True []
            (st\<lparr>timer_label := Clock ((s - 1) div 60) ((s - 1) mod 60)\<rparr>))"
proof -
  have "run_unattended (7 + k) (counting m AtWhile s True [] st)
      = run_unattended (6 + k) (counting m AtIfPaused s True [] st)"
    using assms by (simp add: numeral_eq_Suc unattended_thread app_steps del: run_unattended.simps)
  also have "\<dots> = run_unattended (5 + k) (counting m AtSleep s True [] st)"
    by (simp add: numeral_eq_Suc unattended_thread app_steps del: run_unattended.simps)
  also have "\<dots> = run_unattended (4 + k) (counting m AtRecheck s True [] st)"
    by (simp add: numeral_eq_Suc unattended_thread app_steps del: run_unattended.simps)
  also have "\<dots> = run_unattended (3 + k) (counting m AtDecrement s True [] st)"
    by (simp add: numeral_eq_Suc unattended_thread app_steps del: run_unattended.simps)
  also have "\<dots> = run_unattended (2 + k) (counting m AtCallback (s - 1) True [] st)"
    by (simp add: numeral_eq_Suc unattended_thread app_steps del: run_unattended.simps)
  also have "\<dots> = run_unattended (1 + k) (counting m AtWhile (s - 1) True [Update (s - 1) True] st)"
    by (simp add: numeral_eq_Suc unattended_thread app_steps del: run_unattended.simps)
  also have "\<dots> = run_unattended k (counting m AtWhile (s - 1) True []
            (st\<lparr>timer_label := Clock ((s - 1) div 60) ((s - 1) mod 60)\<rparr>))"
    by (simp add: unattended_event update_running del: run_unattended.simps)
  finally show ?thesis .
qed

lemma last_update:
  assumes "s \<le> 0"
  shows "run_unattended (5 + k) (counting m AtWhile s True [] st) =
         run_unattended k (next_exercise ((counting m Finished s False [] st)\<lparr>timer_label := Clock 0 0\<rparr>))"
proof -
  have "run_unattended (5 + k) (counting m AtWhile s True [] st)
      = run_unattended (4 + k) (counting m AtIfRunning s True [] st)"
    using assms by (simp add: numeral_eq_Suc unattended_thread app_steps del: run_unattended.simps)
  also have "\<dots> = run_unattended (3 + k) (counting m AtSetRunning s True [] st)"
    by (simp add: numeral_eq_Suc unattended_thread app_steps del: run_unattended.simps)
  also have "\<dots> = run_unattended (2 + k) (counting m AtFinalCallback s False [] st)"
    by (simp add: numeral_eq_Suc unattended_thread app_steps del: run_unattended.simps)
  also have "\<dots> = run_unattended (1 + k) (counting m Finished s False [Update 0 False] st)"
    by (simp add: numeral_eq_Suc unattended_thread app_steps del: run_unattended.simps)
  also have "\<dots> = run_unattended k (next_exercise ((counting m Finished s False [] st)\<lparr>timer_label := Clock 0 0\<rparr>))"
    by (simp add: unattended_event update_stopped del: run_unattended.simps)
  finally show ?thesis .
qed

lemma ticks_down:
  "run_unattended (7 * n + k) (counting m AtWhile (int n) True [] st) =
   run_unattended k (counting m AtWhile 0 True []
      (if n = 0 then st else st\<lparr>timer_label := Clock 0 0\<rparr>))"
proof (induction n arbitrary: st)
  case 0
  show ?case by simp
next
  case (Suc n)
  have "run_unattended (7 * Suc n + k) (counting m AtWhile (int (Suc n)) True [] st)
      = run_unattended (7 + (7 * n + k)) (counting m AtWhile (int (Suc n)) True [] st)"
    by (simp add: add.assoc)
  also have "\<dots> = run_unattended (7 * n + k) (counting m AtWhile (int n) True []
            (st\<lparr>timer_label := Clock (int n div 60) (int n mod 60)\<rparr>))"
    using app_one_tick [of "int (Suc n)" "7 * n + k" m st] by simp
  also have "\<dots> = run_unattended k (counting m AtWhile 0 True [] (st\<lparr>timer_label := Clock 0 0\<rparr>))"
    by (subst Suc.IH) (cases "n = 0"; simp)
  finally show ?case by simp
qed

lemma counting_relabel:
  "(counting m l s r es (st\<lparr>timer_label := x\<rparr>))\<lparr>timer_label := y\<rparr>
     = (counting m l s r es st)\<lparr>timer_label := y\<rparr>"
  by (simp add: counting_def)

lemma start_rest_counting:
  assumes "current_workout st = Some w" and "threads (timer st) = replicate m Finished"
  shows "start_rest s (st\<lparr>events := []\<rparr>) =
     counting m AtWhile s True []
       (st\<lparr>status_texts := status_texts st @ [StatusRest], current_set := current_set st + 1\<rparr>)"
  using assms by (cases "timer st") (simp add: start_rest_def start_def counting_def)

lemma rest_period:
  assumes "current_workout st = Some w" and "threads (timer st) = replicate m Finished"
    and "events st = [StartRest (int n)]"
  shows "run_unattended (7 * n + 6 + k) st =
     run_unattended k
       (next_exercise
          ((counting m Finished 0 False []
              (st\<lparr>status_texts := status_texts st @ [StatusRest],
                  current_set := current_set st + 1\<rparr>))\<lparr>timer_label := Clock 0 0\<rparr>))"
proof -
  let ?st = "st\<lparr>status_texts := status_texts st @ [StatusRest], current_set := current_set st + 1\<rparr>"
  have fuel: "7 * n + 6 + k = Suc (7 * n + (5 + k))"
    by simp
  have "run_unattended (7 * n + 6 + k) st = run_unattended (Suc (7 * n + (5 + k))) st"
    by (simp only: fuel)
  also have "\<dots> = run_unattended (7 * n + (5 + k)) (start_rest (int n) (st\<lparr>events := []\<rparr>))"
    by (subst run_unattended.simps) (simp add: assms(3))
  also have "\<dots> = run_unattended (7 * n + (5 + k)) (counting m AtWhile (int n) True [] ?st)"
    using start_rest_counting [OF assms(1,2)] by simp
  also have "\<dots> = run_unattended (5 + k) (counting m AtWhile 0 True []
      (if n = 0 then ?st else ?st\<lparr>timer_label := Clock 0 0\<rparr>))"
    by (rule ticks_down)
  also have "\<dots> = run_unattended k (next_exercise
      ((counting m Finished 0 False [] (if n = 0 then ?st else ?st\<lparr>timer_label := Clock 0 0\<rparr>))
         \<lparr>timer_label := Clock 0 0\<rparr>))"
    by (rule last_update) simp
  also have "(counting m Finished 0 False [] (if n = 0 then ?st else ?st\<lparr>timer_label := Clock 0 0\<rparr>))
         \<lparr>timer_label := Clock 0 0\<rparr> = (counting m Finished 0 False [] ?st)\<lparr>timer_label := Clock 0 0\<rparr>"
    by (simp add: counting_relabel)
  finally show ?thesis .
qed

lemma double_set: "fadd (fadd (Finite 0) (fmul c (Finite 10))) (fmul c (Finite 10)) = fmul (Finite 20) c"
  by (cases c) simp_all

lemma run_A:
  "run_unattended 83 (started_A wn desc dm clk) = Some (finished_A wn desc dm clk)"
proof -
  let ?ic = "icon_of (data dm) ''A''"
  let ?S0 = "started_A wn desc dm clk"
  have S0: "current_workout ?S0 = Some (workout_A desc)" "threads (timer ?S0) = replicate 0 Finished"
    "events ?S0 = [StartRest (int 5)]"
    by (simp_all add: started_A_def selected_def new_app_def new_timer_def)
  define S1 where "S1 = (counting 0 Finished 0 False []
              (?S0\<lparr>status_texts := status_texts ?S0 @ [StatusRest],
                  current_set := current_set ?S0 + 1\<rparr>))\<lparr>timer_label := Clock 0 0\<rparr>"
  have a: "run_unattended 83 ?S0 = run_unattended 42 (next_exercise S1)"
    using rest_period [OF S0, of 42] by (simp add: S1_def)
  define S2 where "S2 = S1\<lparr>status_texts := status_texts S1 @ [StatusSet ?ic ''A'' 2 2 10],
      session_calories := fadd (session_calories S1) (fmul (calories_per_rep_of (data dm) ''A'') (Finite 10)),
      timer_label := Go, events := [StartRest 5]\<rparr>"
  have b: "next_exercise S1 = S2"
    by (subst next_exercise_present [where w = "workout_A desc"])
      (simp_all add: S1_def S2_def counting_def started_A_def selected_def new_app_def workout_A_def
        step_A_def Let_def calories_per_rep_of_def icon_of_def of_pyint_def)
  have S2: "current_workout S2 = Some (workout_A desc)" "threads (timer S2) = replicate 1 Finished"
    "events S2 = [StartRest (int 5)]"
    by (simp_all add: S2_def S1_def counting_def started_A_def selected_def new_app_def)
  define S3 where "S3 = (counting 1 Finished 0 False []
              (S2\<lparr>status_texts := status_texts S2 @ [StatusRest],
                  current_set := current_set S2 + 1\<rparr>))\<lparr>timer_label := Clock 0 0\<rparr>"
  have c: "run_unattended 42 S2 = run_unattended 1 (next_exercise S3)"
    using rest_period [OF S2, of 1] by (simp add: S3_def)
  have d: "next_exercise S3 = next_exercise (S3\<lparr>current_exercise_index := current_exercise_index S3 + 1, current_set := 1\<rparr>)"
    by (rule next_exercise_advance [where w = "workout_A desc"])
      (simp_all add: S3_def S2_def S1_def counting_def started_A_def selected_def new_app_def
        workout_A_def step_A_def)
  have e: "next_exercise (S3\<lparr>current_exercise_index := current_exercise_index S3 + 1, current_set := 1\<rparr>)
      = complete_workout (S3\<lparr>current_exercise_index := current_exercise_index S3 + 1, current_set := 1\<rparr>)"
    by (rule next_exercise_done [where w = "workout_A desc"])
      (simp_all add: S3_def S2_def S1_def counting_def started_A_def selected_def new_app_def
        workout_A_def step_A_def)
  have f: "complete_workout (S3\<lparr>current_exercise_index := current_exercise_index S3 + 1, current_set := 1\<rparr>)
      = finished_A wn desc dm clk"
    by (simp add: complete_workout_def S3_def S2_def S1_def counting_def started_A_def selected_def
        new_app_def workout_A_def finished_A_def Let_def double_set numeral_2_eq_2 numeral_3_eq_3)
  have g: "run_unattended 1 (finished_A wn desc dm clk) = Some (finished_A wn desc dm clk)"
    by (simp add: finished_A_def)
  have "run_unattended 83 ?S0 = run_unattended 42 S2"
    by (simp only: a b)
  also have "\<dots> = run_unattended 1 (finished_A wn desc dm clk)"
    by (simp only: c d e f)
  also have "\<dots> = Some (finished_A wn desc dm clk)"
    by (rule g)
  finally show ?thesis .
qed

lemma session_A:
  assumes "wn \<noteq> []" and "workouts (data dm) wn = Some (workout_A desc)" and "83 \<le> fuel"
  shows "session_result fuel (selected wn dm clk) = Some (finished_A wn desc dm clk)"
proof -
  obtain k where fuel: "fuel = 83 + k"
    using assms(3) by (metis le_Suc_ex)
  have "run_unattended (83 + k) (started_A wn desc dm clk) = Some (finished_A wn desc dm clk)"
    by (rule run_unattended_more) (rule run_A)
  then show ?thesis
    by (simp add: session_result_def start_A [OF assms(1,2)] fuel)
qed

lemma finished_A_facts:
  "count_status is_set (finished_A wn desc dm clk) = 2"
  "count_status is_rest (finished_A wn desc dm clk) = 2"
  "countdowns_started (finished_A wn desc dm clk) = 2"
  "session_calories (finished_A wn desc dm clk)
     = fmul (of_pyint (2 * 10)) (calories_per_rep_of (data dm) ''A'')"
  "current_workout (finished_A wn desc dm clk) = None"
  by (simp_all add: finished_A_def count_status_def countdowns_started_def of_pyint_def)

lemma finished_A_history:
  "\<exists>e. history (data (data_manager (finished_A wn desc dm clk))) = history (data dm) @ [e] \<and>
        1 \<le> duration_minutes e"
  by (simp add: finished_A_def add_workout_to_history_def save_data_def Let_def)

lemma sample_selected:
  "''W'' \<noteq> []" "workouts (data sample_manager) ''W'' = Some (workout_A ''one step'')"
  by (simp_all add: sample_manager_def fresh_manager_def default_data_def)

text \<open>
  Claim C4, as stated: a session on the template with the single step A, 2 sets of 10
  repetitions and 5 seconds of rest, run to its end without skipping, has exactly 2 set
  presentations and one resting period. In the source every presented set is followed by
  a rest (line 712 schedules \<^verbatim>\<open>_start_rest\<close> after each presentation), the last set
  included: the run shows the rest text twice and starts two countdowns.
\<close>

theorem one_rest_counterexample:
  "map_option (count_status is_rest) (session_result 83 sample_app) = Some 2 \<and>
   map_option countdowns_started (session_result 83 sample_app) = Some 2 \<and>
   map_option (count_status is_rest) (session_result 83 sample_app) \<noteq> Some 1"
  using session_A [OF sample_selected, of 83 "fixed_clock (mk_date 2024 3 4)"]
  by (simp add: sample_app_def finished_A_facts)

text \<open>
  Claim C4, amended. On that template, whatever the exercise table, the earlier history
  and the clock, \<^verbatim>\<open>_start_workout\<close> followed by the run of the queued callbacks and the
  countdowns, without pause, skip or stop, comes to an end with exactly 2 set
  presentations and 2 resting periods (one after each set), session calories of
  \<open>2 * 10\<close> times the calories per repetition used for A, and exactly one new record
  appended to the history, whose duration is at least 1 minute.
\<close>

theorem session_two_sets:
  assumes "wn \<noteq> []" and "workouts (data dm) wn = Some (workout_A desc)" and "83 \<le> fuel"
  shows "\<exists>st2 e. session_result fuel (selected wn dm clk) = Some st2 \<and>
           count_status is_set st2 = 2 \<and>
           count_status is_rest st2 = 2 \<and>
           session_calories st2 = fmul (of_pyint (2 * 10)) (calories_per_rep_of (data dm) ''A'') \<and>
           history (data (data_manager st2)) = history (data dm) @ [e] \<and>
           1 \<le> duration_minutes e \<and>
           current_workout st2 = None"
  using session_A [OF assms, of clk] finished_A_facts [of wn desc dm clk]
    finished_A_history [of wn desc dm clk]
  by auto

theorem session_two_sets_witness:
  "''W'' \<noteq> [] \<and> workouts (data sample_manager) ''W'' = Some (workout_A ''one step'') \<and>
   (83::nat) \<le> 83 \<and>
   (\<exists>st2 e. session_result 83 (selected ''W'' sample_manager (fixed_clock (mk_date 2024 3 4))) = Some st2 \<and>
           count_status is_set st2 = 2 \<and>
           count_status is_rest st2 = 2 \<and>
           session_calories st2 = fmul (of_pyint (2 * 10)) (calories_per_rep_of (data sample_manager) ''A'') \<and>
           history (data (data_manager st2)) = history (data sample_manager) @ [e] \<and>
           1 \<le> duration_minutes e \<and>
           current_workout st2 = None)"
  using sample_selected
    session_two_sets [OF sample_selected, of 83 "fixed_clock (mk_date 2024 3 4)"]
  by simp


end

